theory Spec2Isabelle
  imports Main
begin

section \<open>Data model (services/authService.ts, contexts/AuthContext.tsx)\<close>

text \<open>The \<^verbatim>\<open>User\<close> interface of AuthContext.tsx.\<close>

record User =
  uid :: string
  email :: string
  displayName :: "string option"
  emailVerified :: bool

text \<open>The \<^verbatim>\<open>data\<close> member of \<^verbatim>\<open>AuthResponse\<close>: user, token, refreshToken.\<close>

record AuthData =
  d_user :: User
  d_token :: string
  d_refreshToken :: string

record AuthResponse =
  success :: bool
  data :: "AuthData option"
  message :: "string option"

record ApiResponse =
  api_success :: bool
  api_message :: "string option"

record LoginRequest =
  login_email :: string
  login_password :: string

record RegisterRequest =
  reg_email :: string
  reg_password :: string
  reg_displayName :: "string option"

text \<open>
  A thrown JavaScript value. An axios failure carries an optional \<^verbatim>\<open>response\<close> (with an
  optional \<^verbatim>\<open>data\<close> payload holding optional \<^verbatim>\<open>message\<close> and \<^verbatim>\<open>error\<close> strings) and an
  optional \<^verbatim>\<open>code\<close>; a plain \<^verbatim>\<open>new Error(m)\<close> has neither and only its message.
  Every thrown value of the model is an \<^verbatim>\<open>Error\<close> instance, so
  \<^verbatim>\<open>error instanceof Error ? error.message : ...\<close> always reads the message.
\<close>

record ResponseData =
  rd_message :: "string option"
  rd_error :: "string option"

record HttpResponse =
  status :: nat
  rdata :: "ResponseData option"

record JsError =
  response :: "HttpResponse option"
  code :: "string option"
  emessage :: string

definition new_Error :: "string \<Rightarrow> JsError" where
  "new_Error m = \<lparr>response = None, code = None, emessage = m\<rparr>"

text \<open>JavaScript truthiness of an optional string: absent and the empty string are falsy.\<close>

definition truthy :: "string option \<Rightarrow> string option" where
  "truthy v = (case v of None \<Rightarrow> None | Some s \<Rightarrow> if s = [] then None else Some s)"

text \<open>\<^verbatim>\<open>v || d\<close> on an optional string.\<close>

definition or_default :: "string option \<Rightarrow> string \<Rightarrow> string" where
  "or_default v d = (case truthy v of None \<Rightarrow> d | Some s \<Rightarrow> s)"

text \<open>The secure-storage keys.\<close>

definition TOKEN_KEY :: string where "TOKEN_KEY = ''auth_token''"
definition REFRESH_TOKEN_KEY :: string where "REFRESH_TOKEN_KEY = ''refresh_token''"
definition USER_KEY :: string where "USER_KEY = ''user_data''"

text \<open>
  The effects a caller or the UI can observe, in the order the code performs them: the
  three React state setters and the requests sent to the backend (by endpoint path).
\<close>

datatype Event =
  SetUser "User option"
| SetIsLoading bool
| SetError "string option"
| Request string

text \<open>
  The session held by \<^verbatim>\<open>AuthProvider\<close> (user, isLoading, error), the contents of the
  secure store, and the trace of effects so far.
\<close>

record World =
  user :: "User option"
  isLoading :: bool
  error :: "string option"
  store :: "string \<Rightarrow> string option"
  trace :: "Event list"

text \<open>
  What lies outside the repository, as parameters of one operation: for each key whether
  expo-secure-store rejects a read, a write or a deletion of it (and the value it rejects
  with); what the backend answers on each endpoint, given the Authorization header and
  the request body (\<open>Inl\<close> is the failure axios reports); and the JSON codec applied to
  the cached user (\<open>JSON_parse\<close> throws on malformed text and may yield \<^verbatim>\<open>null\<close>).
\<close>

record Env =
  get_fails :: "string \<Rightarrow> bool"
  set_fails :: "string \<Rightarrow> bool"
  delete_fails :: "string \<Rightarrow> bool"
  store_error :: JsError
  srv_login :: "string option \<Rightarrow> LoginRequest \<Rightarrow> JsError + AuthResponse"
  srv_register :: "string option \<Rightarrow> RegisterRequest \<Rightarrow> JsError + AuthResponse"
  srv_reset :: "string option \<Rightarrow> string \<Rightarrow> JsError + ApiResponse"
  srv_refresh :: "string option \<Rightarrow> string \<Rightarrow> JsError + AuthResponse"
  srv_logout :: "string option \<Rightarrow> JsError + ApiResponse"
  srv_me :: "string option \<Rightarrow> JsError + AuthResponse"
  JSON_parse :: "string \<Rightarrow> JsError + User option"
  JSON_stringify :: "User \<Rightarrow> string"

section \<open>State setters and the secure store\<close>

definition setUser :: "User option \<Rightarrow> World \<Rightarrow> World" where
  "setUser u w = w\<lparr>user := u, trace := trace w @ [SetUser u]\<rparr>"

definition setIsLoading :: "bool \<Rightarrow> World \<Rightarrow> World" where
  "setIsLoading b w = w\<lparr>isLoading := b, trace := trace w @ [SetIsLoading b]\<rparr>"

definition setError :: "string option \<Rightarrow> World \<Rightarrow> World" where
  "setError e w = w\<lparr>error := e, trace := trace w @ [SetError e]\<rparr>"

definition sendRequest :: "string \<Rightarrow> World \<Rightarrow> World" where
  "sendRequest path w = w\<lparr>trace := trace w @ [Request path]\<rparr>"

text \<open>\<^verbatim>\<open>isAuthenticated: !!user\<close> of the context value.\<close>

definition isAuthenticated :: "World \<Rightarrow> bool" where
  "isAuthenticated w = (user w \<noteq> None)"

definition getItemAsync :: "Env \<Rightarrow> string \<Rightarrow> World \<Rightarrow> JsError + string option" where
  "getItemAsync env k w = (if get_fails env k then Inl (store_error env) else Inr (store w k))"

definition setItemAsync :: "Env \<Rightarrow> string \<Rightarrow> string \<Rightarrow> World \<Rightarrow> JsError + World" where
  "setItemAsync env k v w =
     (if set_fails env k then Inl (store_error env) else Inr (w\<lparr>store := (store w)(k \<mapsto> v)\<rparr>))"

definition deleteItemAsync :: "Env \<Rightarrow> string \<Rightarrow> World \<Rightarrow> JsError + World" where
  "deleteItemAsync env k w =
     (if delete_fails env k then Inl (store_error env) else Inr (w\<lparr>store := (store w)(k := None)\<rparr>))"

section \<open>Remote Auth Client (services/authService.ts)\<close>

text \<open>\<^verbatim>\<open>error.response?.data?.<field>\<close>\<close>

definition response_data :: "(ResponseData \<Rightarrow> string option) \<Rightarrow> JsError \<Rightarrow> string option" where
  "response_data field e =
     (case response e of
        None \<Rightarrow> None
      | Some r \<Rightarrow> (case rdata r of None \<Rightarrow> None | Some d \<Rightarrow> field d))"

definition formatError :: "JsError \<Rightarrow> JsError" where
  "formatError e =
     (case truthy (response_data rd_message e) of
        Some m \<Rightarrow> new_Error m
      | None \<Rightarrow>
         (case truthy (response_data rd_error e) of
            Some m \<Rightarrow> new_Error m
          | None \<Rightarrow>
             if code e = Some ''NETWORK_ERROR''
             then new_Error ''Network error. Please check your connection.''
             else if code e = Some ''ECONNABORTED''
             then new_Error ''Request timeout. Please try again.''
             else new_Error ''An unexpected error occurred. Please try again.''))"

text \<open>\<^verbatim>\<open>getStoredToken\<close>: a failing read of the store is caught and yields \<^verbatim>\<open>null\<close>.\<close>

definition getStoredToken :: "Env \<Rightarrow> World \<Rightarrow> string option" where
  "getStoredToken env w =
     (case getItemAsync env ''auth_token'' w of Inl e \<Rightarrow> None | Inr token \<Rightarrow> token)"

text \<open>The request interceptor: the Authorization header, set when the token is truthy.\<close>

definition requestInterceptor :: "Env \<Rightarrow> World \<Rightarrow> string option" where
  "requestInterceptor env w =
     (case truthy (getStoredToken env w) of
        None \<Rightarrow> None
      | Some token \<Rightarrow> Some (''Bearer '' @ token))"

text \<open>
  The response interceptor: a response passes; a failure is rejected with
  \<open>formatError\<close> of it (on status 401 \<^verbatim>\<open>handleTokenExpiration\<close> only logs a warning).
\<close>

definition responseInterceptor :: "JsError + 'a \<Rightarrow> JsError + 'a" where
  "responseInterceptor r = (case r of Inl e \<Rightarrow> Inl (formatError e) | Inr resp \<Rightarrow> Inr resp)"

text \<open>
  Each method of \<^verbatim>\<open>AuthService\<close> awaits the intercepted request and, in its own
  \<^verbatim>\<open>catch\<close>, throws \<open>formatError\<close> of whatever was rejected.
\<close>

definition rethrow_formatted :: "JsError + 'a \<Rightarrow> JsError + 'a" where
  "rethrow_formatted r = (case r of Inl e \<Rightarrow> Inl (formatError e) | Inr resp \<Rightarrow> Inr resp)"

definition authService_login :: "Env \<Rightarrow> LoginRequest \<Rightarrow> World \<Rightarrow> (JsError + AuthResponse) \<times> World" where
  "authService_login env credentials w =
     (rethrow_formatted (responseInterceptor (srv_login env (requestInterceptor env w) credentials)),
      sendRequest ''/auth/login'' w)"

definition authService_register :: "Env \<Rightarrow> RegisterRequest \<Rightarrow> World \<Rightarrow> (JsError + AuthResponse) \<times> World" where
  "authService_register env userData w =
     (rethrow_formatted (responseInterceptor (srv_register env (requestInterceptor env w) userData)),
      sendRequest ''/auth/register'' w)"

definition authService_resetPassword :: "Env \<Rightarrow> string \<Rightarrow> World \<Rightarrow> (JsError + ApiResponse) \<times> World" where
  "authService_resetPassword env emailData w =
     (rethrow_formatted (responseInterceptor (srv_reset env (requestInterceptor env w) emailData)),
      sendRequest ''/auth/reset-password'' w)"

definition authService_refreshToken :: "Env \<Rightarrow> string \<Rightarrow> World \<Rightarrow> (JsError + AuthResponse) \<times> World" where
  "authService_refreshToken env refreshToken w =
     (rethrow_formatted (responseInterceptor (srv_refresh env (requestInterceptor env w) refreshToken)),
      sendRequest ''/auth/refresh'' w)"

definition authService_logout :: "Env \<Rightarrow> World \<Rightarrow> (JsError + ApiResponse) \<times> World" where
  "authService_logout env w =
     (rethrow_formatted (responseInterceptor (srv_logout env (requestInterceptor env w))),
      sendRequest ''/auth/logout'' w)"

text \<open>\<^verbatim>\<open>getCurrentUser\<close> returns \<^verbatim>\<open>response.data.data\<close>, which may be undefined.\<close>

definition authService_getCurrentUser :: "Env \<Rightarrow> World \<Rightarrow> (JsError + AuthData option) \<times> World" where
  "authService_getCurrentUser env w =
     (case rethrow_formatted (responseInterceptor (srv_me env (requestInterceptor env w))) of
        Inl e \<Rightarrow> (Inl e, sendRequest ''/auth/me'' w)
      | Inr resp \<Rightarrow> (Inr (data resp), sendRequest ''/auth/me'' w))"

section \<open>Session Controller (contexts/AuthContext.tsx)\<close>

text \<open>
  \<^verbatim>\<open>clearAuthData\<close>: the three deletions and the two setters sit in one \<^verbatim>\<open>try\<close>; a
  rejected deletion is logged and swallowed, and what follows it in the block is skipped.
\<close>

definition clearAuthData :: "Env \<Rightarrow> World \<Rightarrow> World" where
  "clearAuthData env w =
     (case deleteItemAsync env TOKEN_KEY w of
        Inl e \<Rightarrow> w
      | Inr w1 \<Rightarrow>
         (case deleteItemAsync env REFRESH_TOKEN_KEY w1 of
            Inl e \<Rightarrow> w1
          | Inr w2 \<Rightarrow>
             (case deleteItemAsync env USER_KEY w2 of
                Inl e \<Rightarrow> w2
              | Inr w3 \<Rightarrow> setError None (setUser None w3))))"

definition storeAuthData :: "Env \<Rightarrow> AuthResponse \<Rightarrow> World \<Rightarrow> (JsError + unit) \<times> World" where
  "storeAuthData env authData w =
     (case data authData of
        None \<Rightarrow> (Inl (new_Error ''Invalid authentication data received''), w)
      | Some d \<Rightarrow>
         if d_token d = [] then (Inl (new_Error ''Invalid authentication data received''), w)
         else
          (case setItemAsync env TOKEN_KEY (d_token d) w of
             Inl e \<Rightarrow> (Inl (new_Error ''Failed to store authentication data''), w)
           | Inr w1 \<Rightarrow>
              (case setItemAsync env REFRESH_TOKEN_KEY (d_refreshToken d) w1 of
                 Inl e \<Rightarrow> (Inl (new_Error ''Failed to store authentication data''), w1)
               | Inr w2 \<Rightarrow>
                  (case setItemAsync env USER_KEY (JSON_stringify env (d_user d)) w2 of
                     Inl e \<Rightarrow> (Inl (new_Error ''Failed to store authentication data''), w2)
                   | Inr w3 \<Rightarrow> (Inr (), setError None (setUser (Some (d_user d)) w3))))))"

text \<open>
  login, register and resetPassword are each a \<^verbatim>\<open>try\<close> block (the \<open>_try\<close> functions
  below), the same \<^verbatim>\<open>catch\<close> block (record the message, throw again) and the same
  \<^verbatim>\<open>finally\<close> block.
\<close>

definition catch_finally :: "(JsError + unit) \<times> World \<Rightarrow> (JsError + unit) \<times> World" where
  "catch_finally r =
     (case r of
        (Inl e, w) \<Rightarrow> (Inl e, setIsLoading False (setError (Some (emessage e)) w))
      | (Inr u, w) \<Rightarrow> (Inr u, setIsLoading False w))"

definition login_try :: "Env \<Rightarrow> LoginRequest \<Rightarrow> World \<Rightarrow> (JsError + unit) \<times> World" where
  "login_try env credentials w =
     (case authService_login env credentials (setError None (setIsLoading True w)) of
        (Inl e, w1) \<Rightarrow> (Inl e, w1)
      | (Inr authResponse, w1) \<Rightarrow>
          if success authResponse \<and> data authResponse \<noteq> None
          then storeAuthData env authResponse w1
          else (Inl (new_Error (or_default (message authResponse) ''Login failed'')), w1))"

definition login :: "Env \<Rightarrow> LoginRequest \<Rightarrow> World \<Rightarrow> (JsError + unit) \<times> World" where
  "login env credentials w = catch_finally (login_try env credentials w)"

definition register_try :: "Env \<Rightarrow> RegisterRequest \<Rightarrow> World \<Rightarrow> (JsError + unit) \<times> World" where
  "register_try env userData w =
     (case authService_register env userData (setError None (setIsLoading True w)) of
        (Inl e, w1) \<Rightarrow> (Inl e, w1)
      | (Inr authResponse, w1) \<Rightarrow>
          if success authResponse \<and> data authResponse \<noteq> None
          then storeAuthData env authResponse w1
          else (Inl (new_Error (or_default (message authResponse) ''Registration failed'')), w1))"

definition register :: "Env \<Rightarrow> RegisterRequest \<Rightarrow> World \<Rightarrow> (JsError + unit) \<times> World" where
  "register env userData w = catch_finally (register_try env userData w)"

text \<open>
  \<^verbatim>\<open>logout\<close>: a failing server call is caught and logged; \<open>clearAuthData\<close> never throws,
  so the outer \<^verbatim>\<open>catch\<close> is never entered and the call always resolves.
\<close>

definition logout :: "Env \<Rightarrow> World \<Rightarrow> (JsError + unit) \<times> World" where
  "logout env w =
     (case authService_logout env (setIsLoading True w) of
        (r, w1) \<Rightarrow> (Inr (), setIsLoading False (clearAuthData env w1)))"

definition resetPassword_try :: "Env \<Rightarrow> string \<Rightarrow> World \<Rightarrow> (JsError + unit) \<times> World" where
  "resetPassword_try env email_arg w =
     (case authService_resetPassword env email_arg (setError None (setIsLoading True w)) of
        (Inl e, w1) \<Rightarrow> (Inl e, w1)
      | (Inr resp, w1) \<Rightarrow>
          if \<not> api_success resp
          then (Inl (new_Error (or_default (api_message resp) ''Password reset failed'')), w1)
          else (Inr (), w1))"

definition resetPassword :: "Env \<Rightarrow> string \<Rightarrow> World \<Rightarrow> (JsError + unit) \<times> World" where
  "resetPassword env email_arg w = catch_finally (resetPassword_try env email_arg w)"

text \<open>
  \<^verbatim>\<open>refreshToken\<close>: its \<^verbatim>\<open>catch\<close> block purges first, then records the message and throws
  again; there is no \<^verbatim>\<open>finally\<close> block.
\<close>

definition refreshToken_try :: "Env \<Rightarrow> World \<Rightarrow> (JsError + unit) \<times> World" where
  "refreshToken_try env w =
     (case getItemAsync env REFRESH_TOKEN_KEY w of
        Inl e \<Rightarrow> (Inl e, w)
      | Inr storedRefreshToken \<Rightarrow>
         (case truthy storedRefreshToken of
            None \<Rightarrow> (Inl (new_Error ''No refresh token available''), w)
          | Some t \<Rightarrow>
             (case authService_refreshToken env t w of
                (Inl e, w1) \<Rightarrow> (Inl e, w1)
              | (Inr authResponse, w1) \<Rightarrow>
                  if success authResponse \<and> data authResponse \<noteq> None
                  then storeAuthData env authResponse w1
                  else (Inl (new_Error (or_default (message authResponse) ''Token refresh failed'')), w1))))"

definition refreshToken :: "Env \<Rightarrow> World \<Rightarrow> (JsError + unit) \<times> World" where
  "refreshToken env w =
     (case refreshToken_try env w of
        (Inl e, w1) \<Rightarrow> (Inl e, setError (Some (emessage e)) (clearAuthData env w1))
      | (Inr u, w1) \<Rightarrow> (Inr u, w1))"

definition clearError :: "World \<Rightarrow> World" where
  "clearError w = setError None w"

text \<open>
  \<^verbatim>\<open>checkAuthStatus\<close>: a rejected read or a \<^verbatim>\<open>JSON.parse\<close> that throws reaches the outer
  \<^verbatim>\<open>catch\<close>; a failing \<^verbatim>\<open>getCurrentUser\<close> or a rejected write of the fresh user reaches the
  inner one; both call \<open>clearAuthData\<close>. The \<^verbatim>\<open>finally\<close> block ends every path.
\<close>

definition checkAuthStatus :: "Env \<Rightarrow> World \<Rightarrow> World" where
  "checkAuthStatus env w =
     setIsLoading False
       (let w1 = setIsLoading True w in
        case getItemAsync env TOKEN_KEY w1 of
          Inl e \<Rightarrow> clearAuthData env w1
        | Inr token \<Rightarrow>
           (case getItemAsync env USER_KEY w1 of
              Inl e \<Rightarrow> clearAuthData env w1
            | Inr userData \<Rightarrow>
               (case truthy token of
                  None \<Rightarrow> w1
                | Some t \<Rightarrow>
                   (case truthy userData of
                      None \<Rightarrow> w1
                    | Some ud \<Rightarrow>
                       (case JSON_parse env ud of
                          Inl e \<Rightarrow> clearAuthData env w1
                        | Inr parsedUser \<Rightarrow>
                           (case authService_getCurrentUser env (setUser parsedUser w1) of
                              (Inl tokenError, w2) \<Rightarrow> clearAuthData env w2
                            | (Inr None, w2) \<Rightarrow> w2
                            | (Inr (Some currentUserData), w2) \<Rightarrow>
                               (case setItemAsync env USER_KEY
                                       (JSON_stringify env (d_user currentUserData))
                                       (setUser (Some (d_user currentUserData)) w2) of
                                  Inl tokenError \<Rightarrow>
                                    clearAuthData env (setUser (Some (d_user currentUserData)) w2)
                                | Inr w3 \<Rightarrow> w3)))))))"

text \<open>The state \<^verbatim>\<open>AuthProvider\<close> starts in, over the persisted store, and the startup pass.\<close>

definition initial :: "(string \<Rightarrow> string option) \<Rightarrow> World" where
  "initial s = \<lparr>user = None, isLoading = True, error = None, store = s, trace = []\<rparr>"

definition startup :: "Env \<Rightarrow> (string \<Rightarrow> string option) \<Rightarrow> World" where
  "startup env s = checkAuthStatus env (initial s)"

section \<open>Operations in sequence\<close>

datatype Operation =
  Login LoginRequest
| Register RegisterRequest
| Logout
| ResetPassword string
| RefreshToken
| ClearError
| CheckAuthStatus

text \<open>
  One completed operation of the controller: whether it resolved or threw, the session
  and the store are left as the operation left them.
\<close>

fun perform :: "Env \<Rightarrow> Operation \<Rightarrow> World \<Rightarrow> World" where
  "perform env (Login credentials) w = snd (login env credentials w)"
| "perform env (Register userData) w = snd (register env userData w)"
| "perform env Logout w = snd (logout env w)"
| "perform env (ResetPassword email_arg) w = snd (resetPassword env email_arg w)"
| "perform env RefreshToken w = snd (refreshToken env w)"
| "perform env ClearError w = clearError w"
| "perform env CheckAuthStatus w = checkAuthStatus env w"

fun run :: "(Env \<times> Operation) list \<Rightarrow> World \<Rightarrow> World" where
  "run [] w = w"
| "run ((env, op) # steps) w = run steps (perform env op w)"

section \<open>Vocabulary of the properties\<close>

text \<open>The effects performed between two worlds, the later one reached from the earlier.\<close>

definition emitted :: "World \<Rightarrow> World \<Rightarrow> Event list" where
  "emitted w w' = drop (length (trace w)) (trace w')"

fun is_loading_event :: "Event \<Rightarrow> bool" where
  "is_loading_event (SetIsLoading b) = True"
| "is_loading_event e = False"

fun is_request :: "Event \<Rightarrow> bool" where
  "is_request (Request path) = True"
| "is_request e = False"

text \<open>
  The loading-flag contract of the operation table: the first two effects are
  \<^verbatim>\<open>setIsLoading(true)\<close> and \<^verbatim>\<open>setError(null)\<close>, the last one is \<^verbatim>\<open>setIsLoading(false)\<close>,
  and the flag is down when control returns.
\<close>

definition loading_contract :: "World \<Rightarrow> World \<Rightarrow> bool" where
  "loading_contract w w' =
     (take 2 (emitted w w') = [SetIsLoading True, SetError None] \<and>
      last (emitted w w') = SetIsLoading False \<and>
      \<not> isLoading w')"

text \<open>None of the three deletions of a purge is rejected.\<close>

definition purge_ok :: "Env \<Rightarrow> bool" where
  "purge_ok env =
     (\<not> delete_fails env TOKEN_KEY \<and> \<not> delete_fails env REFRESH_TOKEN_KEY \<and>
      \<not> delete_fails env USER_KEY)"

text \<open>All three keys of the Credential Bundle are absent.\<close>

definition purged :: "World \<Rightarrow> bool" where
  "purged w =
     (store w TOKEN_KEY = None \<and> store w REFRESH_TOKEN_KEY = None \<and> store w USER_KEY = None)"

text \<open>A session that shows a user has an access token stored.\<close>

definition session_ok :: "World \<Rightarrow> bool" where
  "session_ok w = (user w = None \<or> store w TOKEN_KEY \<noteq> None)"

section \<open>Sample data\<close>

definition user1 :: User where
  "user1 = \<lparr>uid = ''u1'', email = ''a@b.com'', displayName = None, emailVerified = False\<rparr>"

definition creds1 :: LoginRequest where
  "creds1 = \<lparr>login_email = ''a@b.com'', login_password = ''secret1''\<rparr>"

definition resp_ok :: AuthResponse where
  "resp_ok =
     \<lparr>success = True,
      data = Some \<lparr>d_user = user1, d_token = ''t1'', d_refreshToken = ''r1''\<rparr>,
      message = None\<rparr>"

definition api_ok :: ApiResponse where
  "api_ok = \<lparr>api_success = True, api_message = None\<rparr>"

text \<open>A 401 answer whose payload carries a message, as axios reports it.\<close>

definition err_401 :: JsError where
  "err_401 =
     \<lparr>response = Some \<lparr>status = 401,
         rdata = Some \<lparr>rd_message = Some ''Invalid credentials'', rd_error = None\<rparr>\<rparr>,
      code = Some ''ERR_BAD_REQUEST'',
      emessage = ''Request failed with status code 401''\<rparr>"

text \<open>A request that timed out: no response, code ECONNABORTED.\<close>

definition err_timeout :: JsError where
  "err_timeout =
     \<lparr>response = None, code = Some ''ECONNABORTED'', emessage = ''timeout of 10000ms exceeded''\<rparr>"

text \<open>
  A healthy environment: the store never rejects, the backend accepts everything and
  answers with \<open>user1\<close>, and the codec used for the examples writes a user as
  \<open>user:<uid>\<close> and reads that text back for \<open>user1\<close>.
\<close>

definition env_ok :: Env where
  "env_ok =
     \<lparr>get_fails = (\<lambda>k. False), set_fails = (\<lambda>k. False), delete_fails = (\<lambda>k. False),
      store_error = new_Error ''Could not access the keychain'',
      srv_login = (\<lambda>h c. Inr resp_ok),
      srv_register = (\<lambda>h c. Inr resp_ok),
      srv_reset = (\<lambda>h c. Inr api_ok),
      srv_refresh = (\<lambda>h c. Inr resp_ok),
      srv_logout = (\<lambda>h. Inr api_ok),
      srv_me = (\<lambda>h. Inr resp_ok),
      JSON_parse = (\<lambda>s. if s = ''user:u1'' then Inr (Some user1) else Inl (new_Error ''Unexpected token'')),
      JSON_stringify = (\<lambda>u. ''user:'' @ uid u)\<rparr>"

text \<open>The backend rejects the login with \<open>err_401\<close>.\<close>

definition env_401 :: Env where
  "env_401 = env_ok\<lparr>srv_login := (\<lambda>h c. Inl err_401)\<rparr>"

text \<open>The backend cannot be reached: every request times out.\<close>

definition env_down :: Env where
  "env_down =
     env_ok\<lparr>srv_login := (\<lambda>h c. Inl err_timeout), srv_register := (\<lambda>h c. Inl err_timeout),
            srv_reset := (\<lambda>h c. Inl err_timeout), srv_refresh := (\<lambda>h c. Inl err_timeout),
            srv_logout := (\<lambda>h. Inl err_timeout), srv_me := (\<lambda>h. Inl err_timeout)\<rparr>"

text \<open>The store rejects every deletion.\<close>

definition env_locked :: Env where
  "env_locked = env_ok\<lparr>delete_fails := (\<lambda>k. True)\<rparr>"

text \<open>The store rejects the deletion of the refresh token only.\<close>

definition env_half_locked :: Env where
  "env_half_locked = env_ok\<lparr>delete_fails := (\<lambda>k. k = REFRESH_TOKEN_KEY)\<rparr>"

text \<open>The backend cannot be reached and the store rejects every deletion.\<close>

definition env_down_locked :: Env where
  "env_down_locked = env_down\<lparr>delete_fails := (\<lambda>k. True)\<rparr>"

text \<open>The store rejects the read of the access token.\<close>

definition env_unreadable :: Env where
  "env_unreadable = env_ok\<lparr>get_fails := (\<lambda>k. k = TOKEN_KEY)\<rparr>"

definition store_empty :: "string \<Rightarrow> string option" where
  "store_empty = (\<lambda>k. None)"

definition store_full :: "string \<Rightarrow> string option" where
  "store_full =
     store_empty(TOKEN_KEY \<mapsto> ''t1'', REFRESH_TOKEN_KEY \<mapsto> ''r1'', USER_KEY \<mapsto> ''user:u1'')"

text \<open>A partial write: only the serialized user is left.\<close>

definition store_partial :: "string \<Rightarrow> string option" where
  "store_partial = store_empty(USER_KEY \<mapsto> ''user:u1'')"

text \<open>The access token and the user are stored, the refresh token is not.\<close>

definition store_no_refresh :: "string \<Rightarrow> string option" where
  "store_no_refresh = store_empty(TOKEN_KEY \<mapsto> ''t1'', USER_KEY \<mapsto> ''user:u1'')"

section \<open>Basic facts\<close>

lemma setUser_simps [simp]:
  "user (setUser u w) = u" "isLoading (setUser u w) = isLoading w"
  "error (setUser u w) = error w" "store (setUser u w) = store w"
  "trace (setUser u w) = trace w @ [SetUser u]"
  by (simp_all add: setUser_def)

lemma setIsLoading_simps [simp]:
  "user (setIsLoading b w) = user w" "isLoading (setIsLoading b w) = b"
  "error (setIsLoading b w) = error w" "store (setIsLoading b w) = store w"
  "trace (setIsLoading b w) = trace w @ [SetIsLoading b]"
  by (simp_all add: setIsLoading_def)

lemma setError_simps [simp]:
  "user (setError e w) = user w" "isLoading (setError e w) = isLoading w"
  "error (setError e w) = e" "store (setError e w) = store w"
  "trace (setError e w) = trace w @ [SetError e]"
  by (simp_all add: setError_def)

lemma sendRequest_simps [simp]:
  "user (sendRequest p w) = user w" "isLoading (sendRequest p w) = isLoading w"
  "error (sendRequest p w) = error w" "store (sendRequest p w) = store w"
  "trace (sendRequest p w) = trace w @ [Request p]"
  by (simp_all add: sendRequest_def)

lemma initial_simps [simp]:
  "user (initial s) = None" "isLoading (initial s) = True" "error (initial s) = None"
  "store (initial s) = s" "trace (initial s) = []"
  by (simp_all add: initial_def)

lemma keys_distinct [simp]:
  "TOKEN_KEY \<noteq> REFRESH_TOKEN_KEY" "TOKEN_KEY \<noteq> USER_KEY" "REFRESH_TOKEN_KEY \<noteq> USER_KEY"
  "REFRESH_TOKEN_KEY \<noteq> TOKEN_KEY" "USER_KEY \<noteq> TOKEN_KEY" "USER_KEY \<noteq> REFRESH_TOKEN_KEY"
  by (simp_all add: TOKEN_KEY_def REFRESH_TOKEN_KEY_def USER_KEY_def)

lemma emitted_append: "trace w' = trace w @ es \<Longrightarrow> emitted w w' = es"
  by (simp add: emitted_def)

section \<open>Remote Auth Client: error normalisation\<close>

lemma formatError_new_Error:
  "formatError (new_Error m) = new_Error ''An unexpected error occurred. Please try again.''"
  by (simp add: formatError_def new_Error_def response_data_def truthy_def)

lemma formatError_is_new_Error: "\<exists>m. formatError e = new_Error m"
  by (auto simp: formatError_def split: option.splits)

text \<open>
  Applied once, \<open>formatError\<close> follows the precedence server message, server error,
  network or timeout message, generic message.
\<close>

lemma formatError_precedence:
  "emessage (formatError e) =
     (case truthy (response_data rd_message e) of
        Some m \<Rightarrow> m
      | None \<Rightarrow>
         (case truthy (response_data rd_error e) of
            Some m \<Rightarrow> m
          | None \<Rightarrow>
             if code e = Some ''NETWORK_ERROR'' then ''Network error. Please check your connection.''
             else if code e = Some ''ECONNABORTED'' then ''Request timeout. Please try again.''
             else ''An unexpected error occurred. Please try again.''))"
  by (simp add: formatError_def new_Error_def split: option.splits)

text \<open>
  Applied to its own result it finds neither a response nor a code, and falls through to
  the generic message.
\<close>

lemma formatError_twice:
  "formatError (formatError e) = new_Error ''An unexpected error occurred. Please try again.''"
  using formatError_is_new_Error [of e] by (auto simp: formatError_new_Error)

lemma rethrow_intercepted:
  "rethrow_formatted (responseInterceptor r) = Inl e \<Longrightarrow>
     e = new_Error ''An unexpected error occurred. Please try again.''"
  by (auto simp: rethrow_formatted_def responseInterceptor_def formatError_twice split: sum.splits)

lemma authService_snd [simp]:
  "snd (authService_login env c w) = sendRequest ''/auth/login'' w"
  "snd (authService_register env d w) = sendRequest ''/auth/register'' w"
  "snd (authService_resetPassword env m w) = sendRequest ''/auth/reset-password'' w"
  "snd (authService_refreshToken env t w) = sendRequest ''/auth/refresh'' w"
  "snd (authService_logout env w) = sendRequest ''/auth/logout'' w"
  "snd (authService_getCurrentUser env w) = sendRequest ''/auth/me'' w"
  by (simp_all add: authService_login_def authService_register_def authService_resetPassword_def
      authService_refreshToken_def authService_logout_def authService_getCurrentUser_def
      split: sum.splits)

text \<open>
  Hence every failure of the six client operations reaches the Session Controller with
  the generic message, whatever the server or the transport reported.
\<close>

lemma client_failure_generic:
  "fst (authService_login env c w) = Inl e \<Longrightarrow>
     emessage e = ''An unexpected error occurred. Please try again.''"
  "fst (authService_register env d w) = Inl e \<Longrightarrow>
     emessage e = ''An unexpected error occurred. Please try again.''"
  "fst (authService_resetPassword env m w) = Inl e \<Longrightarrow>
     emessage e = ''An unexpected error occurred. Please try again.''"
  "fst (authService_refreshToken env t w) = Inl e \<Longrightarrow>
     emessage e = ''An unexpected error occurred. Please try again.''"
  "fst (authService_logout env w) = Inl e \<Longrightarrow>
     emessage e = ''An unexpected error occurred. Please try again.''"
  "fst (authService_getCurrentUser env w) = Inl e \<Longrightarrow>
     emessage e = ''An unexpected error occurred. Please try again.''"
  by (auto simp: authService_login_def authService_register_def authService_resetPassword_def
      authService_refreshToken_def authService_logout_def authService_getCurrentUser_def new_Error_def
      split: sum.splits dest!: rethrow_intercepted)

text \<open>
  C2 (error precedence of the Remote Auth Client). The backend rejects a login with
  status 401 and the payload message "Invalid credentials". The response interceptor
  turns the failure into an error with that message, as the precedence demands; the
  \<^verbatim>\<open>catch\<close> block of \<^verbatim>\<open>login\<close> then formats the already formatted error again, and the
  exception that reaches the Session Controller carries the generic fallback message
  instead of the server's.
\<close>

theorem login_rejection_message_lost:
  "formatError err_401 = new_Error ''Invalid credentials'' \<and>
   fst (authService_login env_401 creds1 (initial store_empty)) =
     Inl (new_Error ''An unexpected error occurred. Please try again.'')"
  by (simp add: authService_login_def env_401_def env_ok_def err_401_def rethrow_formatted_def
      responseInterceptor_def formatError_def response_data_def truthy_def new_Error_def)

section \<open>Session Controller: purge and persist\<close>

lemma clearAuthData_isLoading [simp]: "isLoading (clearAuthData env w) = isLoading w"
  by (simp add: clearAuthData_def deleteItemAsync_def)

lemma clearAuthData_purge:
  assumes "purge_ok env"
  shows "user (clearAuthData env w) = None" "error (clearAuthData env w) = None"
        "purged (clearAuthData env w)"
        "trace (clearAuthData env w) = trace w @ [SetUser None, SetError None]"
  using assms by (simp_all add: clearAuthData_def deleteItemAsync_def purge_ok_def purged_def)

lemma clearAuthData_user: "user (clearAuthData env w) = None \<or> user (clearAuthData env w) = user w"
  by (simp add: clearAuthData_def deleteItemAsync_def)

lemma clearAuthData_store:
  "store (clearAuthData env w) k = None \<or> store (clearAuthData env w) k = store w k"
  by (simp add: clearAuthData_def deleteItemAsync_def)

lemma clearAuthData_trace:
  "trace (clearAuthData env w) = trace w \<or>
   trace (clearAuthData env w) = trace w @ [SetUser None, SetError None]"
  by (simp add: clearAuthData_def deleteItemAsync_def)

lemma storeAuthData_fails:
  assumes "storeAuthData env r w = (Inl e, w')"
  shows "user w' = user w" "error w' = error w" "isLoading w' = isLoading w" "trace w' = trace w"
  using assms
  by (auto simp: storeAuthData_def setItemAsync_def split: option.splits if_splits sum.splits)

lemma storeAuthData_succeeds:
  assumes "storeAuthData env r w = (Inr u, w')"
  shows "user w' \<noteq> None" "error w' = None" "isLoading w' = isLoading w"
        "store w' TOKEN_KEY \<noteq> None"
        "\<exists>x. trace w' = trace w @ [SetUser x, SetError None]"
  using assms
  by (auto simp: storeAuthData_def setItemAsync_def split: option.splits if_splits sum.splits)

lemma catch_finally_Inl:
  "catch_finally (r, w) = (Inl e, w') \<Longrightarrow>
     r = Inl e \<and> user w' = user w \<and> error w' = Some (emessage e) \<and> \<not> isLoading w'"
  by (auto simp: catch_finally_def split: sum.splits)

section \<open>login\<close>

lemma login_try_fails:
  "login_try env c w = (Inl e, w1) \<Longrightarrow> user w1 = user w"
  by (auto simp: login_try_def authService_login_def split: sum.splits if_splits
      dest: storeAuthData_fails)

lemma catch_finally_fst: "fst (catch_finally rw) = fst rw"
  by (cases rw) (auto simp: catch_finally_def split: sum.splits)

text \<open>
  C6 (failed login). From any session and store, for any credentials and any behaviour of
  the backend and of the store: \<open>login\<close> throws \<open>e\<close> to its caller exactly when its
  \<^verbatim>\<open>try\<close> block failed with \<open>e\<close> (a rejection by the backend, a transport failure, an
  unusable answer, a rejected write to the store), and then \<open>user\<close> is what it was
  before the call and \<open>error\<close> holds the message of \<open>e\<close>.
\<close>

theorem login_failure:
  "(fst (login env credentials w) = Inl e) = (fst (login_try env credentials w) = Inl e) \<and>
   (fst (login env credentials w) = Inl e \<longrightarrow>
      user (snd (login env credentials w)) = user w \<and>
      error (snd (login env credentials w)) = Some (emessage e))"
proof (intro conjI impI)
  show "(fst (login env credentials w) = Inl e) = (fst (login_try env credentials w) = Inl e)"
    by (simp add: login_def catch_finally_fst)
next
  assume f: "fst (login env credentials w) = Inl e"
  obtain r w1 where body: "login_try env credentials w = (r, w1)"
    by (cases "login_try env credentials w")
  obtain w' where fin: "catch_finally (r, w1) = (Inl e, w')"
    using f body by (cases "catch_finally (r, w1)") (simp add: login_def)
  from catch_finally_Inl [OF fin] body login_try_fails [of env credentials w e w1]
  have "user (snd (login env credentials w)) = user w \<and>
      error (snd (login env credentials w)) = Some (emessage e)"
    using fin by (simp add: login_def)
  then show "user (snd (login env credentials w)) = user w"
    and "error (snd (login env credentials w)) = Some (emessage e)" by simp_all
qed

text \<open>The rejected login of \<open>env_401\<close> on a fresh session: it throws, there is still no user.\<close>

theorem login_failure_witness:
  "fst (login env_401 creds1 (initial store_empty)) =
     Inl (new_Error ''An unexpected error occurred. Please try again.'') \<and>
   user (snd (login env_401 creds1 (initial store_empty))) = None \<and>
   error (snd (login env_401 creds1 (initial store_empty))) =
     Some ''An unexpected error occurred. Please try again.''"
proof -
  have f: "fst (login env_401 creds1 (initial store_empty)) =
     Inl (new_Error ''An unexpected error occurred. Please try again.'')"
    by (simp add: login_def login_try_def catch_finally_def authService_login_def env_401_def
        env_ok_def err_401_def rethrow_formatted_def responseInterceptor_def formatError_def
        response_data_def truthy_def new_Error_def)
  from login_failure [of env_401 creds1 "initial store_empty"
         "new_Error ''An unexpected error occurred. Please try again.''"] f
  show ?thesis by (simp add: new_Error_def)
qed

lemmas sample_defs =
  env_ok_def env_401_def env_down_def env_locked_def env_half_locked_def env_down_locked_def
  env_unreadable_def store_empty_def store_full_def store_partial_def store_no_refresh_def
  user1_def creds1_def resp_ok_def api_ok_def err_401_def err_timeout_def

lemmas client_defs =
  authService_login_def authService_register_def authService_resetPassword_def
  authService_refreshToken_def authService_logout_def authService_getCurrentUser_def
  rethrow_formatted_def responseInterceptor_def requestInterceptor_def getStoredToken_def
  formatError_def response_data_def truthy_def or_default_def new_Error_def

lemmas controller_defs =
  checkAuthStatus_def startup_def clearAuthData_def storeAuthData_def catch_finally_def
  login_def login_try_def register_def register_try_def logout_def resetPassword_def
  resetPassword_try_def refreshToken_def refreshToken_try_def clearError_def
  getItemAsync_def setItemAsync_def deleteItemAsync_def

lemma requestInterceptor_store:
  "store w' = store w \<Longrightarrow> requestInterceptor env w' = requestInterceptor env w"
  by (simp add: requestInterceptor_def getStoredToken_def getItemAsync_def)

section \<open>Sample worlds\<close>

lemma startup_ok_full:
  "user (startup env_ok store_full) = Some user1"
  "isLoading (startup env_ok store_full) = False"
  "error (startup env_ok store_full) = None"
  "store (startup env_ok store_full) = store_full"
  by (auto simp: sample_defs client_defs controller_defs)

lemma startup_ok_no_refresh:
  "user (startup env_ok store_no_refresh) = Some user1"
  "store (startup env_ok store_no_refresh) = store_no_refresh"
  by (auto simp: sample_defs client_defs controller_defs)

lemma env_ok_sel:
  "get_fails env_ok k = False" "set_fails env_ok k = False" "delete_fails env_ok k = False"
  "store_error env_ok = new_Error ''Could not access the keychain''"
  "srv_login env_ok h c = Inr resp_ok" "srv_register env_ok h d = Inr resp_ok"
  "srv_reset env_ok h m = Inr api_ok" "srv_refresh env_ok h t = Inr resp_ok"
  "srv_logout env_ok h = Inr api_ok" "srv_me env_ok h = Inr resp_ok"
  "JSON_parse env_ok s =
     (if s = ''user:u1'' then Inr (Some user1) else Inl (new_Error ''Unexpected token''))"
  "JSON_stringify env_ok u = ''user:'' @ uid u"
  by (simp_all add: env_ok_def)

lemma store_no_refresh_keys:
  "store_no_refresh TOKEN_KEY = Some ''t1''" "store_no_refresh REFRESH_TOKEN_KEY = None"
  "store_no_refresh USER_KEY = Some ''user:u1''"
  by (simp_all add: store_no_refresh_def store_empty_def)

lemma store_full_keys:
  "store_full TOKEN_KEY = Some ''t1''" "store_full REFRESH_TOKEN_KEY = Some ''r1''"
  "store_full USER_KEY = Some ''user:u1''"
  by (simp_all add: store_full_def)


section \<open>logout\<close>

lemma logout_unfold:
  "logout env w = (Inr (), setIsLoading False (clearAuthData env (sendRequest ''/auth/logout'' (setIsLoading True w))))"
  by (simp add: logout_def authService_logout_def)

text \<open>
  C3 (logout purges), as amended. From any session and store, and whether the remote
  logout request succeeds or fails: \<open>logout\<close> always resolves, and when none of the three
  deletions of the purge is rejected it ends with \<open>user = null\<close> and the access token,
  the refresh token and the serialized user absent from the store.
\<close>

theorem logout_purges:
  "fst (logout env w) = Inr () \<and>
   (purge_ok env \<longrightarrow> user (snd (logout env w)) = None \<and> purged (snd (logout env w)))"
  using clearAuthData_purge [of env "sendRequest ''/auth/logout'' (setIsLoading True w)"]
  by (simp add: logout_unfold purged_def)

text \<open>A signed-in session, the backend out of reach: the remote call fails, the purge is done.\<close>

theorem logout_purges_witness:
  "purge_ok env_down \<and>
   fst (authService_logout env_down (startup env_ok store_full)) \<noteq> Inr api_ok \<and>
   user (startup env_ok store_full) = Some user1 \<and>
   fst (logout env_down (startup env_ok store_full)) = Inr () \<and>
   user (snd (logout env_down (startup env_ok store_full))) = None \<and>
   purged (snd (logout env_down (startup env_ok store_full)))"
proof -
  have p: "purge_ok env_down"
    by (simp add: purge_ok_def env_down_def env_ok_def)
  have r: "fst (authService_logout env_down (startup env_ok store_full)) \<noteq> Inr api_ok"
    by (simp add: authService_logout_def rethrow_formatted_def responseInterceptor_def
        env_down_def env_ok_def)
  from logout_purges [of env_down "startup env_ok store_full"] p r startup_ok_full(1)
  show ?thesis by simp
qed

text \<open>
  C3 as stated fails when the store rejects a deletion: \<open>clearAuthData\<close> swallows the
  rejection and skips \<^verbatim>\<open>setUser(null)\<close>, so \<open>logout\<close> resolves with the user still signed in
  and the access token still stored.
\<close>

theorem logout_rejected_deletion:
  "fst (logout env_locked (startup env_ok store_full)) = Inr () \<and>
   user (snd (logout env_locked (startup env_ok store_full))) = Some user1 \<and>
   store (snd (logout env_locked (startup env_ok store_full))) TOKEN_KEY = Some ''t1''"
  by (simp add: logout_unfold clearAuthData_def deleteItemAsync_def env_locked_def
      startup_ok_full store_full_keys)

section \<open>refreshToken\<close>

lemma refreshToken_try_no_token:
  "\<not> get_fails env REFRESH_TOKEN_KEY \<Longrightarrow> truthy (store w REFRESH_TOKEN_KEY) = None \<Longrightarrow>
     refreshToken_try env w = (Inl (new_Error ''No refresh token available''), w)"
  by (simp add: refreshToken_try_def getItemAsync_def)

lemma refreshToken_fails:
  assumes "fst (refreshToken env w) = Inl e"
  obtains w1 where "refreshToken_try env w = (Inl e, w1)"
    and "snd (refreshToken env w) = setError (Some (emessage e)) (clearAuthData env w1)"
  using assms by (cases "refreshToken_try env w") (auto simp: refreshToken_def split: sum.splits)

lemma refreshToken_try_frame:
  assumes "refreshToken_try env w = (Inl e, w1)"
  shows "user w1 = user w" "isLoading w1 = isLoading w"
        "trace w1 = trace w \<or> trace w1 = trace w @ [Request ''/auth/refresh'']"
  using assms
  by (auto simp: refreshToken_try_def authService_refreshToken_def
      split: sum.splits option.splits if_splits dest: storeAuthData_fails)

text \<open>
  C4 (refresh failure), as amended. \<open>refreshToken\<close> throws \<open>e\<close> to its caller exactly
  when its \<^verbatim>\<open>try\<close> block failed with \<open>e\<close>, and then \<open>error\<close> holds the message of \<open>e\<close>; when moreover none of the deletions of the purge is rejected, it
  ends with \<open>user = null\<close> and the three keys absent. When the refresh token can be
  read and is missing (or empty), the call throws "No refresh token available", and a
  session with no user over an empty store stays so.
\<close>

lemma refreshToken_fst: "fst (refreshToken env w) = fst (refreshToken_try env w)"
  by (cases "refreshToken_try env w") (auto simp: refreshToken_def split: sum.splits)

theorem refreshToken_failure:
  "(fst (refreshToken env w) = Inl e) = (fst (refreshToken_try env w) = Inl e) \<and>
   (fst (refreshToken env w) = Inl e \<longrightarrow>
      error (snd (refreshToken env w)) = Some (emessage e) \<and>
      (purge_ok env \<longrightarrow>
         user (snd (refreshToken env w)) = None \<and> purged (snd (refreshToken env w)))) \<and>
   (\<not> get_fails env REFRESH_TOKEN_KEY \<and> truthy (store w REFRESH_TOKEN_KEY) = None \<longrightarrow>
      fst (refreshToken env w) = Inl (new_Error ''No refresh token available'') \<and>
      (user w = None \<and> purged w \<longrightarrow>
         user (snd (refreshToken env w)) = None \<and> purged (snd (refreshToken env w))))"
proof (intro conjI impI)
  show "(fst (refreshToken env w) = Inl e) = (fst (refreshToken_try env w) = Inl e)"
    by (simp add: refreshToken_fst)
next
  assume f: "fst (refreshToken env w) = Inl e"
  from f obtain w1 where
    s: "snd (refreshToken env w) = setError (Some (emessage e)) (clearAuthData env w1)"
    by (rule refreshToken_fails)
  show "error (snd (refreshToken env w)) = Some (emessage e)" by (simp add: s)
  assume p: "purge_ok env"
  show "user (snd (refreshToken env w)) = None"
    by (simp add: s clearAuthData_purge [OF p])
  show "purged (snd (refreshToken env w))"
    using clearAuthData_purge(3) [OF p, of w1] by (simp add: s purged_def)
next
  assume a: "\<not> get_fails env REFRESH_TOKEN_KEY \<and> truthy (store w REFRESH_TOKEN_KEY) = None"
  then have t: "refreshToken_try env w = (Inl (new_Error ''No refresh token available''), w)"
    by (simp add: refreshToken_try_no_token)
  then show "fst (refreshToken env w) = Inl (new_Error ''No refresh token available'')"
    by (simp add: refreshToken_def)
  assume e: "user w = None \<and> purged w"
  have s: "snd (refreshToken env w) =
      setError (Some ''No refresh token available'') (clearAuthData env w)"
    using t by (simp add: refreshToken_def new_Error_def)
  show "user (snd (refreshToken env w)) = None"
    using clearAuthData_user [of env w] e by (auto simp: s)
  show "purged (snd (refreshToken env w))"
    using clearAuthData_store [of env w TOKEN_KEY] clearAuthData_store [of env w REFRESH_TOKEN_KEY]
      clearAuthData_store [of env w USER_KEY] e
    by (auto simp: s purged_def)
qed

text \<open>
  A refresh that times out on a signed-in session, and Scenario E: a refresh with nothing
  stored.
\<close>

theorem refreshToken_failure_witness:
  "fst (refreshToken env_down (startup env_ok store_full)) =
     Inl (new_Error ''An unexpected error occurred. Please try again.'') \<and>
   purge_ok env_down \<and>
   error (snd (refreshToken env_down (startup env_ok store_full))) =
     Some ''An unexpected error occurred. Please try again.'' \<and>
   user (snd (refreshToken env_down (startup env_ok store_full))) = None \<and>
   purged (snd (refreshToken env_down (startup env_ok store_full))) \<and>
   fst (refreshToken env_ok (initial store_empty)) = Inl (new_Error ''No refresh token available'') \<and>
   user (snd (refreshToken env_ok (initial store_empty))) = None \<and>
   purged (snd (refreshToken env_ok (initial store_empty)))"
proof -
  have f: "fst (refreshToken env_down (startup env_ok store_full)) =
     Inl (new_Error ''An unexpected error occurred. Please try again.'')"
    by (simp add: refreshToken_def refreshToken_try_def getItemAsync_def startup_ok_full
        store_full_keys truthy_def authService_refreshToken_def rethrow_formatted_def
        responseInterceptor_def formatError_def response_data_def env_down_def err_timeout_def
        env_ok_sel new_Error_def)
  have p: "purge_ok env_down"
    by (simp add: purge_ok_def env_down_def env_ok_sel)
  have g: "\<not> get_fails env_ok REFRESH_TOKEN_KEY \<and>
      truthy (store (initial store_empty) REFRESH_TOKEN_KEY) = None"
    by (simp add: env_ok_def store_empty_def truthy_def)
  have e: "user (initial store_empty) = None \<and> purged (initial store_empty)"
    by (simp add: purged_def store_empty_def)
  from refreshToken_failure
         [of env_down "startup env_ok store_full"
            "new_Error ''An unexpected error occurred. Please try again.''"]
       refreshToken_failure [of env_ok "initial store_empty"] f p g e
  show ?thesis by (simp add: new_Error_def)
qed

text \<open>
  C4 as stated fails when the store rejects a deletion: the refresh fails for want of a
  refresh token, the purge is abandoned, and the user stays signed in over a stored
  access token.
\<close>

theorem refreshToken_rejected_deletion:
  "fst (refreshToken env_locked (startup env_ok store_no_refresh)) =
     Inl (new_Error ''No refresh token available'') \<and>
   user (snd (refreshToken env_locked (startup env_ok store_no_refresh))) = Some user1 \<and>
   store (snd (refreshToken env_locked (startup env_ok store_no_refresh))) TOKEN_KEY = Some ''t1''"
  by (simp add: refreshToken_def refreshToken_try_def getItemAsync_def startup_ok_no_refresh
      store_no_refresh_keys truthy_def clearAuthData_def deleteItemAsync_def
      env_locked_def env_ok_sel)

section \<open>The loading flag\<close>

lemma loading_contractI:
  "trace w' = trace w @ [SetIsLoading True, SetError None] @ es @ [SetIsLoading False] \<Longrightarrow>
   \<not> isLoading w' \<Longrightarrow> loading_contract w w'"
  by (simp add: loading_contract_def emitted_def)

lemma catch_finally_trace:
  "\<exists>es. trace (snd (catch_finally (r, w))) = trace w @ es @ [SetIsLoading False]"
  by (cases r) (simp_all add: catch_finally_def)

lemma catch_finally_isLoading: "\<not> isLoading (snd (catch_finally rw))"
  by (cases rw) (auto simp: catch_finally_def split: sum.splits)

lemma storeAuthData_trace:
  "\<exists>es. trace (snd (storeAuthData env r w)) = trace w @ es \<and> filter is_loading_event es = []"
  by (auto simp: storeAuthData_def setItemAsync_def split: option.splits)

lemma login_try_trace:
  "\<exists>es. trace (snd (login_try env c w)) = trace w @ [SetIsLoading True, SetError None] @ es"
  using storeAuthData_trace [of env _ "sendRequest ''/auth/login'' (setError None (setIsLoading True w))"]
  by (auto simp: login_try_def authService_login_def split: sum.splits)

lemma register_try_trace:
  "\<exists>es. trace (snd (register_try env d w)) = trace w @ [SetIsLoading True, SetError None] @ es"
  using storeAuthData_trace [of env _ "sendRequest ''/auth/register'' (setError None (setIsLoading True w))"]
  by (auto simp: register_try_def authService_register_def split: sum.splits)

lemma resetPassword_try_trace:
  "\<exists>es. trace (snd (resetPassword_try env m w)) = trace w @ [SetIsLoading True, SetError None] @ es"
  by (auto simp: resetPassword_try_def authService_resetPassword_def split: sum.splits)

lemma catch_finally_contract:
  assumes "\<exists>es. trace (snd rw) = trace w @ [SetIsLoading True, SetError None] @ es"
  shows "loading_contract w (snd (catch_finally rw))"
proof -
  obtain r w1 where rw: "rw = (r, w1)" by (cases rw)
  from assms rw obtain es where 1: "trace w1 = trace w @ [SetIsLoading True, SetError None] @ es"
    by auto
  from catch_finally_trace [of r w1] obtain es' where
    2: "trace (snd (catch_finally (r, w1))) = trace w1 @ es' @ [SetIsLoading False]" by blast
  have "trace (snd (catch_finally rw)) =
      trace w @ [SetIsLoading True, SetError None] @ (es @ es') @ [SetIsLoading False]"
    using 1 2 rw by simp
  then show ?thesis
    using catch_finally_isLoading [of rw] by (rule loading_contractI)
qed


lemma logout_trace:
  "take 2 (emitted w (snd (logout env w))) = [SetIsLoading True, Request ''/auth/logout''] \<and>
   last (emitted w (snd (logout env w))) = SetIsLoading False \<and>
   \<not> isLoading (snd (logout env w))"
  using clearAuthData_trace [of env "sendRequest ''/auth/logout'' (setIsLoading True w)"]
  by (auto simp: logout_unfold emitted_def)


lemma refreshToken_try_succeeds:
  assumes "refreshToken_try env w = (Inr u, w1)"
  shows "isLoading w1 = isLoading w"
        "\<exists>x. trace w1 = trace w @ [Request ''/auth/refresh'', SetUser x, SetError None]"
        "user w1 \<noteq> None" "store w1 TOKEN_KEY \<noteq> None"
  using assms
  by (auto simp: refreshToken_try_def authService_refreshToken_def getItemAsync_def
      split: sum.splits option.splits if_splits dest: storeAuthData_succeeds)

lemma refreshToken_quiet:
  "isLoading (snd (refreshToken env w)) = isLoading w \<and>
   filter is_loading_event (emitted w (snd (refreshToken env w))) = []"
proof -
  obtain r w1 where t: "refreshToken_try env w = (r, w1)" by (cases "refreshToken_try env w")
  show ?thesis
  proof (cases r)
    case (Inl e)
    with t refreshToken_try_frame [of env w e w1] clearAuthData_trace [of env w1]
    show ?thesis by (auto simp: refreshToken_def emitted_def)
  next
    case (Inr u)
    with t refreshToken_try_succeeds [of env w u w1]
    show ?thesis by (auto simp: refreshToken_def emitted_def)
  qed
qed

text \<open>
  C1 (loading flag), as amended. From any session, for any input and any behaviour of the
  backend and the store: login, register and resetPassword first set \<open>isLoading = true\<close>
  and \<open>error = null\<close>, and on every exit path, resolved or thrown, their last effect is
  \<open>isLoading = false\<close>. logout first sets \<open>isLoading = true\<close> and then sends its request
  without clearing \<open>error\<close>, and its last effect is \<open>isLoading = false\<close>. refreshToken
  never sets \<open>isLoading\<close> and leaves it as it was.
\<close>

theorem loading_flag_contract:
  "loading_contract w (snd (login env credentials w)) \<and>
   loading_contract w (snd (register env userData w)) \<and>
   loading_contract w (snd (resetPassword env email_arg w)) \<and>
   take 2 (emitted w (snd (logout env w))) = [SetIsLoading True, Request ''/auth/logout''] \<and>
   last (emitted w (snd (logout env w))) = SetIsLoading False \<and>
   \<not> isLoading (snd (logout env w)) \<and>
   isLoading (snd (refreshToken env w)) = isLoading w \<and>
   filter is_loading_event (emitted w (snd (refreshToken env w))) = []"
  using catch_finally_contract [OF login_try_trace, of w env credentials]
    catch_finally_contract [OF register_try_trace, of w env userData]
    catch_finally_contract [OF resetPassword_try_trace, of w env email_arg]
    logout_trace [of w env] refreshToken_quiet [of env w]
  by (simp add: login_def register_def resetPassword_def)

text \<open>A rejected login on a fresh session keeps the contract on its throwing path.\<close>

theorem loading_flag_contract_witness:
  "fst (login env_401 creds1 (initial store_empty)) \<noteq> Inr () \<and>
   loading_contract (initial store_empty) (snd (login env_401 creds1 (initial store_empty)))"
proof -
  have "fst (login env_401 creds1 (initial store_empty)) \<noteq> Inr ()"
    by (simp add: login_def login_try_def catch_finally_def authService_login_def env_401_def
        rethrow_formatted_def responseInterceptor_def)
  with loading_flag_contract [of "initial store_empty" env_401 creds1]
  show ?thesis by simp
qed

text \<open>
  C1 as stated fails for refreshToken and for logout: on a signed-in session neither
  begins with \<^verbatim>\<open>setIsLoading(true)\<close> followed by \<^verbatim>\<open>setError(null)\<close>.
\<close>

theorem loading_flag_not_uniform:
  "\<not> loading_contract (startup env_ok store_full)
        (snd (refreshToken env_ok (startup env_ok store_full))) \<and>
   \<not> loading_contract (startup env_ok store_full)
        (snd (logout env_ok (startup env_ok store_full)))"
proof
  show "\<not> loading_contract (startup env_ok store_full)
        (snd (refreshToken env_ok (startup env_ok store_full)))"
  proof
    assume "loading_contract (startup env_ok store_full)
        (snd (refreshToken env_ok (startup env_ok store_full)))"
    then have "take 2 (emitted (startup env_ok store_full)
        (snd (refreshToken env_ok (startup env_ok store_full)))) = [SetIsLoading True, SetError None]"
      by (simp add: loading_contract_def)
    then obtain es where "emitted (startup env_ok store_full)
        (snd (refreshToken env_ok (startup env_ok store_full))) = SetIsLoading True # es"
      by (cases "emitted (startup env_ok store_full)
        (snd (refreshToken env_ok (startup env_ok store_full)))") auto
    with refreshToken_quiet [of env_ok "startup env_ok store_full"] show False by simp
  qed
  show "\<not> loading_contract (startup env_ok store_full)
        (snd (logout env_ok (startup env_ok store_full)))"
    using logout_trace [of "startup env_ok store_full" env_ok]
    by (simp add: loading_contract_def)
qed

section \<open>Startup reconciliation\<close>

lemma checkAuthStatus_isLoading [simp]: "\<not> isLoading (checkAuthStatus env w)"
  by (simp add: checkAuthStatus_def)

text \<open>Neither read is rejected and one of the two values is falsy: nothing is done.\<close>

lemma checkAuthStatus_skip:
  assumes "\<not> get_fails env TOKEN_KEY" "\<not> get_fails env USER_KEY"
    and "truthy (store w TOKEN_KEY) = None \<or> truthy (store w USER_KEY) = None"
  shows "checkAuthStatus env w = setIsLoading False (setIsLoading True w)"
  using assms by (auto simp: checkAuthStatus_def getItemAsync_def Let_def split: option.splits)

text \<open>A read is rejected: the outer catch purges.\<close>

lemma checkAuthStatus_unreadable:
  assumes "get_fails env TOKEN_KEY \<or> get_fails env USER_KEY"
  shows "checkAuthStatus env w = setIsLoading False (clearAuthData env (setIsLoading True w))"
  using assms by (auto simp: checkAuthStatus_def getItemAsync_def Let_def)

text \<open>Both values are read and truthy, and the request for the current user fails.\<close>

lemma checkAuthStatus_rejected:
  assumes "\<not> get_fails env TOKEN_KEY" "\<not> get_fails env USER_KEY"
    and "truthy (store w TOKEN_KEY) \<noteq> None" "truthy (store w USER_KEY) \<noteq> None"
    and "srv_me env (requestInterceptor env w) = Inl e"
  shows "\<exists>w1. checkAuthStatus env w = setIsLoading False (clearAuthData env w1)"
proof -
  have r: "requestInterceptor env (setUser p (setIsLoading True w)) = requestInterceptor env w" for p
    by (rule requestInterceptor_store) simp
  show ?thesis
    using assms
    by (auto simp: checkAuthStatus_def getItemAsync_def Let_def authService_getCurrentUser_def r
        rethrow_formatted_def responseInterceptor_def split: option.splits sum.splits)
qed

lemma truthy_None [simp]: "truthy None = None"
  by (simp add: truthy_def)

text \<open>
  C5 (startup reconciliation), as amended. When the access token and the serialized user
  are both absent, the startup pass ends with \<open>user = null\<close>. When both are read and
  non-empty and the request for the current user fails, then, provided the store rejects
  none of the three deletions of the purge, the pass ends with the three keys absent and
  \<open>user = null\<close>. On every path, from any session, the pass ends with
  \<open>isLoading = false\<close>.
\<close>

theorem startup_reconciliation:
  "(s TOKEN_KEY = None \<and> s USER_KEY = None \<longrightarrow> user (startup env s) = None) \<and>
   (purge_ok env \<and> \<not> get_fails env TOKEN_KEY \<and> \<not> get_fails env USER_KEY \<and>
    truthy (s TOKEN_KEY) \<noteq> None \<and> truthy (s USER_KEY) \<noteq> None \<and>
    srv_me env (requestInterceptor env (initial s)) = Inl e \<longrightarrow>
      user (startup env s) = None \<and> purged (startup env s)) \<and>
   \<not> isLoading (checkAuthStatus env w)"
proof (intro conjI impI)
  assume a: "s TOKEN_KEY = None \<and> s USER_KEY = None"
  show "user (startup env s) = None"
  proof (cases "get_fails env TOKEN_KEY \<or> get_fails env USER_KEY")
    case True
    from checkAuthStatus_unreadable [OF True, of "initial s"]
      clearAuthData_user [of env "setIsLoading True (initial s)"]
    show ?thesis by (auto simp: startup_def)
  next
    case False
    with a have "checkAuthStatus env (initial s) = setIsLoading False (setIsLoading True (initial s))"
      by (intro checkAuthStatus_skip) simp_all
    then show ?thesis by (simp add: startup_def)
  qed
next
  assume b: "purge_ok env \<and> \<not> get_fails env TOKEN_KEY \<and> \<not> get_fails env USER_KEY \<and>
    truthy (s TOKEN_KEY) \<noteq> None \<and> truthy (s USER_KEY) \<noteq> None \<and>
    srv_me env (requestInterceptor env (initial s)) = Inl e"
  then obtain w1 where w1: "checkAuthStatus env (initial s) = setIsLoading False (clearAuthData env w1)"
    using checkAuthStatus_rejected [of env "initial s" e] by auto
  from b have p: "purge_ok env" by simp
  show "user (startup env s) = None"
    by (simp add: startup_def w1 clearAuthData_purge [OF p])
  show "purged (startup env s)"
    using clearAuthData_purge(3) [OF p, of w1] by (simp add: startup_def w1 purged_def)
next
  show "\<not> isLoading (checkAuthStatus env w)" by simp
qed

text \<open>
  C9 (partial write), as amended. When neither read is rejected and exactly one of the
  access token and the serialized user is present, the startup pass leaves the store as
  it was, sends no request, keeps \<open>user = null\<close> and ends with \<open>isLoading = false\<close>.
\<close>

theorem startup_partial_write:
  assumes "\<not> get_fails env TOKEN_KEY" "\<not> get_fails env USER_KEY"
    and "(s TOKEN_KEY = None) \<noteq> (s USER_KEY = None)"
  shows "store (startup env s) = s \<and> filter is_request (trace (startup env s)) = [] \<and>
         user (startup env s) = None \<and> \<not> isLoading (startup env s)"
proof -
  from assms(3) have "truthy (store (initial s) TOKEN_KEY) = None \<or>
      truthy (store (initial s) USER_KEY) = None"
    by auto
  from checkAuthStatus_skip [OF assms(1,2) this] show ?thesis
    by (simp add: startup_def)
qed

text \<open>
  C10 (the purge resets error), as amended. \<open>logout\<close> always resolves. Provided the
  store rejects none of the three deletions: \<open>clearAuthData\<close> ends with
  \<open>error = null\<close>; \<open>logout\<close> ends with \<open>error = null\<close>, whatever \<open>error\<close> was before; a failing \<open>refreshToken\<close> ends with
  the effects \<^verbatim>\<open>setUser(null)\<close>, \<^verbatim>\<open>setError(null)\<close> and then \<^verbatim>\<open>setError(message)\<close>; and a startup
  pass whose request for the current user fails ends with \<open>error = null\<close>.
\<close>

theorem purge_resets_error:
  "fst (logout env w) = Inr () \<and>
   (purge_ok env \<longrightarrow>
      error (clearAuthData env w) = None \<and>
      error (snd (logout env w)) = None \<and>
      (fst (refreshToken env w) = Inl e \<longrightarrow>
         take 3 (rev (emitted w (snd (refreshToken env w)))) =
           [SetError (Some (emessage e)), SetError None, SetUser None]) \<and>
      (\<not> get_fails env TOKEN_KEY \<and> \<not> get_fails env USER_KEY \<and>
       truthy (store w TOKEN_KEY) \<noteq> None \<and> truthy (store w USER_KEY) \<noteq> None \<and>
       srv_me env (requestInterceptor env w) = Inl e' \<longrightarrow>
         error (checkAuthStatus env w) = None))"
proof (intro conjI impI)
  show "fst (logout env w) = Inr ()" by (simp add: logout_unfold)
next
  assume assms: "purge_ok env"
  show "error (clearAuthData env w) = None"
    by (rule clearAuthData_purge [OF assms])
  show "error (snd (logout env w)) = None"
    by (simp add: logout_unfold clearAuthData_purge [OF assms])
next
  assume assms: "purge_ok env"
  assume f: "fst (refreshToken env w) = Inl e"
  from f obtain w1 where t: "refreshToken_try env w = (Inl e, w1)"
    and s: "snd (refreshToken env w) = setError (Some (emessage e)) (clearAuthData env w1)"
    by (rule refreshToken_fails)
  from refreshToken_try_frame(3) [OF t] obtain es where "trace w1 = trace w @ es" by auto
  then have "emitted w (snd (refreshToken env w)) =
      es @ [SetUser None, SetError None, SetError (Some (emessage e))]"
    by (simp add: s clearAuthData_purge [OF assms] emitted_def)
  then show "take 3 (rev (emitted w (snd (refreshToken env w)))) =
      [SetError (Some (emessage e)), SetError None, SetUser None]"
    by simp
next
  assume assms: "purge_ok env"
  assume "\<not> get_fails env TOKEN_KEY \<and> \<not> get_fails env USER_KEY \<and>
          truthy (store w TOKEN_KEY) \<noteq> None \<and> truthy (store w USER_KEY) \<noteq> None \<and>
          srv_me env (requestInterceptor env w) = Inl e'"
  then obtain w1 where "checkAuthStatus env w = setIsLoading False (clearAuthData env w1)"
    using checkAuthStatus_rejected [of env w e'] by auto
  then show "error (checkAuthStatus env w) = None"
    by (simp add: clearAuthData_purge [OF assms])
qed

section \<open>Examples for the startup pass and the purge\<close>

lemma env_down_sel:
  "get_fails env_down k = False" "set_fails env_down k = False" "delete_fails env_down k = False"
  "srv_me env_down h = Inl err_timeout" "srv_logout env_down h = Inl err_timeout"
  "srv_refresh env_down h t = Inl err_timeout"
  "JSON_parse env_down = JSON_parse env_ok"
  by (simp_all add: env_down_def env_ok_sel)

lemma store_partial_keys:
  "store_partial TOKEN_KEY = None" "store_partial REFRESH_TOKEN_KEY = None"
  "store_partial USER_KEY = Some ''user:u1''"
  by (simp_all add: store_partial_def store_empty_def)

lemma failed_login_world:
  "fst (login env_401 creds1 (initial store_empty)) =
     Inl (new_Error ''An unexpected error occurred. Please try again.'')"
  "user (snd (login env_401 creds1 (initial store_empty))) = None"
  "error (snd (login env_401 creds1 (initial store_empty))) =
     Some ''An unexpected error occurred. Please try again.''"
  by (simp_all add: login_def login_try_def catch_finally_def authService_login_def env_401_def
        err_401_def rethrow_formatted_def responseInterceptor_def formatError_def
        response_data_def truthy_def new_Error_def)

text \<open>An empty store; and a full store with the backend out of reach.\<close>

theorem startup_reconciliation_witness:
  "user (startup env_ok store_empty) = None \<and>
   purge_ok env_down \<and> truthy (store_full TOKEN_KEY) \<noteq> None \<and> truthy (store_full USER_KEY) \<noteq> None \<and>
   srv_me env_down (requestInterceptor env_down (initial store_full)) = Inl err_timeout \<and>
   user (startup env_down store_full) = None \<and> purged (startup env_down store_full) \<and>
   \<not> isLoading (checkAuthStatus env_down (initial store_full))"
proof -
  have a: "store_empty TOKEN_KEY = None \<and> store_empty USER_KEY = None"
    by (simp add: store_empty_def)
  have b: "purge_ok env_down \<and> \<not> get_fails env_down TOKEN_KEY \<and> \<not> get_fails env_down USER_KEY \<and>
    truthy (store_full TOKEN_KEY) \<noteq> None \<and> truthy (store_full USER_KEY) \<noteq> None \<and>
    srv_me env_down (requestInterceptor env_down (initial store_full)) = Inl err_timeout"
    by (simp add: purge_ok_def env_down_sel store_full_keys truthy_def)
  from startup_reconciliation [where s = store_empty and env = env_ok]
       startup_reconciliation [where s = store_full and env = env_down and e = err_timeout
         and w = "initial store_full"] a b
  show ?thesis by simp
qed

text \<open>
  C5 as stated fails when the store rejects a deletion: both values are stored, the
  request for the current user times out, the purge is abandoned, and the pass ends with
  the cached user signed in and the access token still stored.
\<close>

theorem startup_rejected_deletion:
  "truthy (store_full TOKEN_KEY) \<noteq> None \<and> truthy (store_full USER_KEY) \<noteq> None \<and>
   srv_me env_down_locked (requestInterceptor env_down_locked (initial store_full)) = Inl err_timeout \<and>
   user (startup env_down_locked store_full) = Some user1 \<and>
   store (startup env_down_locked store_full) TOKEN_KEY = Some ''t1''"
  by (simp add: startup_def checkAuthStatus_def getItemAsync_def Let_def store_full_keys truthy_def
      env_down_locked_def env_down_sel env_ok_sel authService_getCurrentUser_def
      rethrow_formatted_def responseInterceptor_def clearAuthData_def deleteItemAsync_def)

text \<open>Only the serialized user is stored; the store answers every read.\<close>

theorem startup_partial_write_witness:
  "\<not> get_fails env_ok TOKEN_KEY \<and> \<not> get_fails env_ok USER_KEY \<and>
   store_partial TOKEN_KEY = None \<and> store_partial USER_KEY = Some ''user:u1'' \<and>
   store (startup env_ok store_partial) = store_partial \<and>
   filter is_request (trace (startup env_ok store_partial)) = [] \<and>
   user (startup env_ok store_partial) = None \<and> \<not> isLoading (startup env_ok store_partial)"
proof -
  have g: "\<not> get_fails env_ok TOKEN_KEY" "\<not> get_fails env_ok USER_KEY"
    by (simp_all add: env_ok_sel)
  have k: "(store_partial TOKEN_KEY = None) \<noteq> (store_partial USER_KEY = None)"
    by (simp add: store_partial_keys)
  from startup_partial_write [OF g k] g show ?thesis
    by (simp add: store_partial_keys)
qed

text \<open>
  C9 as stated fails when the store rejects the read of the access token: the outer
  \<^verbatim>\<open>catch\<close> purges, and the stale serialized user is deleted.
\<close>

theorem startup_partial_write_unreadable:
  "store_partial TOKEN_KEY = None \<and> store_partial USER_KEY = Some ''user:u1'' \<and>
   store (startup env_unreadable store_partial) USER_KEY = None"
  by (simp add: startup_def checkAuthStatus_def getItemAsync_def Let_def store_partial_keys
      env_unreadable_def env_ok_sel clearAuthData_def deleteItemAsync_def)

text \<open>After a rejected login has left an error, a logout with the backend out of reach.\<close>

theorem purge_resets_error_witness:
  "purge_ok env_down \<and>
   error (snd (login env_401 creds1 (initial store_empty))) =
     Some ''An unexpected error occurred. Please try again.'' \<and>
   fst (logout env_down (snd (login env_401 creds1 (initial store_empty)))) = Inr () \<and>
   error (snd (logout env_down (snd (login env_401 creds1 (initial store_empty))))) = None"
proof -
  have p: "purge_ok env_down"
    by (simp add: purge_ok_def env_down_sel)
  from purge_resets_error [of env_down "snd (login env_401 creds1 (initial store_empty))"]
    p failed_login_world(3)
  show ?thesis by simp
qed

text \<open>
  C10 as stated fails when the store rejects a deletion: after a rejected login has left
  an error, \<open>logout\<close> resolves and the error is still there.
\<close>

theorem logout_keeps_error:
  "error (snd (login env_401 creds1 (initial store_empty))) =
     Some ''An unexpected error occurred. Please try again.'' \<and>
   fst (logout env_locked (snd (login env_401 creds1 (initial store_empty)))) = Inr () \<and>
   error (snd (logout env_locked (snd (login env_401 creds1 (initial store_empty))))) =
     Some ''An unexpected error occurred. Please try again.''"
  by (simp add: logout_unfold clearAuthData_def deleteItemAsync_def env_locked_def
      failed_login_world)

section \<open>Running the startup pass twice\<close>

lemma requestInterceptor_token:
  "store w' TOKEN_KEY = store w TOKEN_KEY \<Longrightarrow> requestInterceptor env w' = requestInterceptor env w"
  by (simp add: requestInterceptor_def getStoredToken_def getItemAsync_def TOKEN_KEY_def)

lemma clearAuthData_blocked: "delete_fails env TOKEN_KEY \<Longrightarrow> clearAuthData env w = w"
  by (simp add: clearAuthData_def deleteItemAsync_def)

lemma clearAuthData_token_gone:
  "\<not> delete_fails env TOKEN_KEY \<Longrightarrow> store (clearAuthData env w) TOKEN_KEY = None"
  by (simp add: clearAuthData_def deleteItemAsync_def)

text \<open>The branches of one pass, each under the condition that selects it.\<close>

lemma checkAuthStatus_parse_fails:
  assumes "\<not> get_fails env TOKEN_KEY" "\<not> get_fails env USER_KEY"
    and "truthy (store w TOKEN_KEY) = Some t" "truthy (store w USER_KEY) = Some ud"
    and "JSON_parse env ud = Inl e"
  shows "checkAuthStatus env w = setIsLoading False (clearAuthData env (setIsLoading True w))"
  using assms by (simp add: checkAuthStatus_def getItemAsync_def Let_def)

lemma checkAuthStatus_me_fails:
  assumes "\<not> get_fails env TOKEN_KEY" "\<not> get_fails env USER_KEY"
    and "truthy (store w TOKEN_KEY) = Some t" "truthy (store w USER_KEY) = Some ud"
    and "JSON_parse env ud = Inr p"
    and "srv_me env (requestInterceptor env w) = Inl e"
  shows "checkAuthStatus env w =
     setIsLoading False (clearAuthData env (sendRequest ''/auth/me'' (setUser p (setIsLoading True w))))"
proof -
  have r: "requestInterceptor env (setUser p (setIsLoading True w)) = requestInterceptor env w"
    by (rule requestInterceptor_token) simp
  show ?thesis
    using assms
    by (simp add: checkAuthStatus_def getItemAsync_def Let_def authService_getCurrentUser_def r
        rethrow_formatted_def responseInterceptor_def)
qed

lemma checkAuthStatus_me_empty:
  assumes "\<not> get_fails env TOKEN_KEY" "\<not> get_fails env USER_KEY"
    and "truthy (store w TOKEN_KEY) = Some t" "truthy (store w USER_KEY) = Some ud"
    and "JSON_parse env ud = Inr p"
    and "srv_me env (requestInterceptor env w) = Inr r" "data r = None"
  shows "checkAuthStatus env w =
     setIsLoading False (sendRequest ''/auth/me'' (setUser p (setIsLoading True w)))"
proof -
  have r: "requestInterceptor env (setUser p (setIsLoading True w)) = requestInterceptor env w"
    by (rule requestInterceptor_token) simp
  show ?thesis
    using assms
    by (simp add: checkAuthStatus_def getItemAsync_def Let_def authService_getCurrentUser_def r
        rethrow_formatted_def responseInterceptor_def)
qed

lemma checkAuthStatus_write_fails:
  assumes "\<not> get_fails env TOKEN_KEY" "\<not> get_fails env USER_KEY"
    and "truthy (store w TOKEN_KEY) = Some t" "truthy (store w USER_KEY) = Some ud"
    and "JSON_parse env ud = Inr p"
    and "srv_me env (requestInterceptor env w) = Inr r" "data r = Some d"
    and "set_fails env USER_KEY"
  shows "checkAuthStatus env w =
     setIsLoading False (clearAuthData env (setUser (Some (d_user d))
       (sendRequest ''/auth/me'' (setUser p (setIsLoading True w)))))"
proof -
  have r: "requestInterceptor env (setUser p (setIsLoading True w)) = requestInterceptor env w"
    by (rule requestInterceptor_token) simp
  show ?thesis
    using assms
    by (simp add: checkAuthStatus_def getItemAsync_def Let_def authService_getCurrentUser_def r
        rethrow_formatted_def responseInterceptor_def setItemAsync_def)
qed

lemma checkAuthStatus_refreshed:
  assumes "\<not> get_fails env TOKEN_KEY" "\<not> get_fails env USER_KEY"
    and "truthy (store w TOKEN_KEY) = Some t" "truthy (store w USER_KEY) = Some ud"
    and "JSON_parse env ud = Inr p"
    and "srv_me env (requestInterceptor env w) = Inr r" "data r = Some d"
    and "\<not> set_fails env USER_KEY"
  shows "user (checkAuthStatus env w) = Some (d_user d)"
    and "store (checkAuthStatus env w) = (store w)(USER_KEY \<mapsto> JSON_stringify env (d_user d))"
proof -
  have r: "requestInterceptor env (setUser p (setIsLoading True w)) = requestInterceptor env w"
    by (rule requestInterceptor_token) simp
  show "user (checkAuthStatus env w) = Some (d_user d)"
    using assms
    by (simp add: checkAuthStatus_def getItemAsync_def Let_def authService_getCurrentUser_def r
        rethrow_formatted_def responseInterceptor_def setItemAsync_def)
  show "store (checkAuthStatus env w) = (store w)(USER_KEY \<mapsto> JSON_stringify env (d_user d))"
    using assms
    by (simp add: checkAuthStatus_def getItemAsync_def Let_def authService_getCurrentUser_def r
        rethrow_formatted_def responseInterceptor_def setItemAsync_def)
qed

text \<open>After a purge that removed the access token, the next pass does nothing.\<close>

lemma pass_after_purge:
  assumes "\<not> get_fails env TOKEN_KEY" "\<not> get_fails env USER_KEY" "\<not> delete_fails env TOKEN_KEY"
    and "w1 = setIsLoading False (clearAuthData env wx)"
  shows "user (checkAuthStatus env w1) = user w1"
proof -
  have "truthy (store w1 TOKEN_KEY) = None"
    using assms(3,4) by (simp add: clearAuthData_token_gone)
  then have "checkAuthStatus env w1 = setIsLoading False (setIsLoading True w1)"
    using assms(1,2) by (intro checkAuthStatus_skip) simp_all
  then show ?thesis by simp
qed

text \<open>
  C8 (idempotence of the startup pass). For every initial store and every fixed behaviour
  of the backend and the store, the startup pass run a second time right after the first
  ends with the same \<open>user\<close> as the first. The JSON codec is a parameter of the model;
  what is used of it is that a user the backend returns for \<^verbatim>\<open>/auth/me\<close> is written as a
  non-empty text that reads back as that user, as \<^verbatim>\<open>JSON.parse(JSON.stringify(u))\<close> does.
\<close>

theorem startup_idempotent:
  assumes rt: "\<forall>h r d. srv_me env h = Inr r \<and> data r = Some d \<longrightarrow>
     JSON_stringify env (d_user d) \<noteq> [] \<and>
     JSON_parse env (JSON_stringify env (d_user d)) = Inr (Some (d_user d))"
  shows "user (checkAuthStatus env (startup env s)) = user (startup env s)"
proof -
  define w0 where "w0 = initial s"
  define w1 where "w1 = checkAuthStatus env w0"
  have goal: "?thesis \<longleftrightarrow> user (checkAuthStatus env w1) = user w1"
    by (simp add: startup_def w0_def w1_def)
  have u0: "user w0 = None" and s0: "store w0 = s" by (simp_all add: w0_def)
  have "user (checkAuthStatus env w1) = user w1"
  proof (cases "get_fails env TOKEN_KEY \<or> get_fails env USER_KEY")
    case True
    have 1: "w1 = setIsLoading False (clearAuthData env (setIsLoading True w0))"
      unfolding w1_def by (rule checkAuthStatus_unreadable [OF True])
    have "user w1 = None"
      using clearAuthData_user [of env "setIsLoading True w0"] u0 by (auto simp: 1)
    moreover have "user (checkAuthStatus env w1) = None \<or> user (checkAuthStatus env w1) = user w1"
      using clearAuthData_user [of env "setIsLoading True w1"]
      by (simp add: checkAuthStatus_unreadable [OF True])
    ultimately show ?thesis by auto
  next
    case False
    then have g: "\<not> get_fails env TOKEN_KEY" "\<not> get_fails env USER_KEY" by simp_all
    note skip = checkAuthStatus_skip [OF g]
    show ?thesis
    proof (cases "truthy (store w0 TOKEN_KEY) = None \<or> truthy (store w0 USER_KEY) = None")
      case True
      have 1: "w1 = setIsLoading False (setIsLoading True w0)"
        unfolding w1_def by (rule skip [OF True])
      then have "truthy (store w1 TOKEN_KEY) = None \<or> truthy (store w1 USER_KEY) = None"
        using True by simp
      from skip [OF this] show ?thesis by simp
    next
      case False
      then obtain t ud where t: "truthy (store w0 TOKEN_KEY) = Some t"
        and ud: "truthy (store w0 USER_KEY) = Some ud" by auto
      text \<open>a pass that purges: either the token goes, or the purge is abandoned at once\<close>
      have purge: "user (checkAuthStatus env w1) = user w1"
        if 1: "w1 = setIsLoading False (clearAuthData env wx)"
          and 2: "delete_fails env TOKEN_KEY \<Longrightarrow> user (checkAuthStatus env (setIsLoading False wx)) = user wx"
        for wx
      proof (cases "delete_fails env TOKEN_KEY")
        case True
        with 1 2 show ?thesis by (simp add: clearAuthData_blocked)
      next
        case False
        from pass_after_purge [OF g False 1] show ?thesis .
      qed
      show ?thesis
      proof (cases "JSON_parse env ud")
        case (Inl e)
        have 1: "w1 = setIsLoading False (clearAuthData env (setIsLoading True w0))"
          unfolding w1_def by (rule checkAuthStatus_parse_fails [OF g t ud Inl])
        show ?thesis
        proof (rule purge [OF 1])
          assume d: "delete_fails env TOKEN_KEY"
          let ?v = "setIsLoading False (setIsLoading True w0)"
          have "checkAuthStatus env ?v = setIsLoading False (clearAuthData env (setIsLoading True ?v))"
            by (rule checkAuthStatus_parse_fails [OF g _ _ Inl]) (simp_all add: t ud)
          then show "user (checkAuthStatus env ?v) = user (setIsLoading True w0)"
            by (simp add: clearAuthData_blocked [OF d])
        qed
      next
        case (Inr p)
        show ?thesis
        proof (cases "srv_me env (requestInterceptor env w0)")
          case (Inl e)
          have 1: "w1 = setIsLoading False (clearAuthData env
              (sendRequest ''/auth/me'' (setUser p (setIsLoading True w0))))"
            unfolding w1_def by (rule checkAuthStatus_me_fails [OF g t ud Inr Inl])
          show ?thesis
          proof (rule purge [OF 1])
            assume d: "delete_fails env TOKEN_KEY"
            let ?v = "setIsLoading False (sendRequest ''/auth/me'' (setUser p (setIsLoading True w0)))"
            have ri: "requestInterceptor env ?v = requestInterceptor env w0"
              by (rule requestInterceptor_token) simp
            have "checkAuthStatus env ?v = setIsLoading False (clearAuthData env
                (sendRequest ''/auth/me'' (setUser p (setIsLoading True ?v))))"
              by (rule checkAuthStatus_me_fails [OF g _ _ Inr]) (simp_all add: t ud ri Inl)
            then show "user (checkAuthStatus env ?v) =
                user (sendRequest ''/auth/me'' (setUser p (setIsLoading True w0)))"
              by (simp add: clearAuthData_blocked [OF d])
          qed
        next
          case r: (Inr r)
          show ?thesis
          proof (cases "data r")
            case None
            have 1: "w1 = setIsLoading False (sendRequest ''/auth/me'' (setUser p (setIsLoading True w0)))"
              unfolding w1_def by (rule checkAuthStatus_me_empty [OF g t ud Inr r None])
            have s1: "store w1 = store w0" by (simp add: 1)
            have ri: "requestInterceptor env w1 = requestInterceptor env w0"
              by (rule requestInterceptor_token) (simp add: s1)
            have "checkAuthStatus env w1 =
                setIsLoading False (sendRequest ''/auth/me'' (setUser p (setIsLoading True w1)))"
              by (rule checkAuthStatus_me_empty [OF g _ _ Inr _ None]) (simp_all add: s1 t ud ri r)
            then show ?thesis by (simp add: 1)
          next
            case (Some d)
            show ?thesis
            proof (cases "set_fails env USER_KEY")
              case True
              have 1: "w1 = setIsLoading False (clearAuthData env (setUser (Some (d_user d))
                  (sendRequest ''/auth/me'' (setUser p (setIsLoading True w0)))))"
                unfolding w1_def by (rule checkAuthStatus_write_fails [OF g t ud Inr r Some True])
              show ?thesis
              proof (rule purge [OF 1])
                assume dl: "delete_fails env TOKEN_KEY"
                let ?v = "setIsLoading False (setUser (Some (d_user d))
                  (sendRequest ''/auth/me'' (setUser p (setIsLoading True w0))))"
                have ri: "requestInterceptor env ?v = requestInterceptor env w0"
                  by (rule requestInterceptor_token) simp
                have "checkAuthStatus env ?v = setIsLoading False (clearAuthData env
                    (setUser (Some (d_user d))
                      (sendRequest ''/auth/me'' (setUser p (setIsLoading True ?v)))))"
                  by (rule checkAuthStatus_write_fails [OF g _ _ Inr _ Some True])
                    (simp_all add: t ud ri r)
                then show "user (checkAuthStatus env ?v) =
                    user (setUser (Some (d_user d))
                      (sendRequest ''/auth/me'' (setUser p (setIsLoading True w0))))"
                  by (simp add: clearAuthData_blocked [OF dl])
              qed
            next
              case False
              have u1: "user w1 = Some (d_user d)"
                and s1: "store w1 = (store w0)(USER_KEY \<mapsto> JSON_stringify env (d_user d))"
                unfolding w1_def
                by (rule checkAuthStatus_refreshed [OF g t ud Inr r Some False])+
              from rt r Some have ne: "JSON_stringify env (d_user d) \<noteq> []"
                and rtrip: "JSON_parse env (JSON_stringify env (d_user d)) = Inr (Some (d_user d))"
                by blast+
              have ri: "requestInterceptor env w1 = requestInterceptor env w0"
                by (rule requestInterceptor_token) (simp add: s1)
              have t1: "truthy (store w1 TOKEN_KEY) = Some t"
                by (simp add: s1 t)
              have ud1: "truthy (store w1 USER_KEY) = Some (JSON_stringify env (d_user d))"
                by (simp add: s1 truthy_def ne)
              have m1: "srv_me env (requestInterceptor env w1) = Inr r"
                by (simp add: ri r)
              have "user (checkAuthStatus env w1) = Some (d_user d)"
                by (rule checkAuthStatus_refreshed(1) [OF g t1 ud1 rtrip m1 Some False])
              with u1 show ?thesis by simp
            qed
          qed
        qed
      qed
    qed
  qed
  with goal show ?thesis by simp
qed

text \<open>A full store and a healthy backend: both passes end with \<open>user1\<close>.\<close>

theorem startup_idempotent_witness:
  "user (startup env_ok store_full) = Some user1 \<and>
   user (checkAuthStatus env_ok (startup env_ok store_full)) = Some user1"
proof -
  have rt: "\<forall>h r d. srv_me env_ok h = Inr r \<and> data r = Some d \<longrightarrow>
     JSON_stringify env_ok (d_user d) \<noteq> [] \<and>
     JSON_parse env_ok (JSON_stringify env_ok (d_user d)) = Inr (Some (d_user d))"
    by (auto simp: env_ok_sel resp_ok_def user1_def)
  from startup_idempotent [OF rt, of store_full] startup_ok_full(1)
  show ?thesis by simp
qed

section \<open>The visible session\<close>


lemma catch_finally_frame [simp]:
  "user (snd (catch_finally rw)) = user (snd rw)"
  "store (snd (catch_finally rw)) = store (snd rw)"
  by (cases rw; auto simp: catch_finally_def split: sum.splits)+

lemma storeAuthData_session:
  "session_ok w \<Longrightarrow> session_ok (snd (storeAuthData env r w))"
  by (auto simp: session_ok_def storeAuthData_def setItemAsync_def split: option.splits)

lemma session_ok_cong:
  "user w' = user w \<Longrightarrow> store w' = store w \<Longrightarrow> session_ok w' = session_ok w"
  by (simp add: session_ok_def)

lemma login_session: "session_ok w \<Longrightarrow> session_ok (snd (login env c w))"
proof -
  assume a: "session_ok w"
  let ?v = "sendRequest ''/auth/login'' (setError None (setIsLoading True w))"
  have v: "session_ok ?v" using a by (simp add: session_ok_def)
  have "session_ok (snd (login_try env c w))"
    using v storeAuthData_session [OF v, of env]
    by (auto simp: login_try_def authService_login_def split: sum.splits)
  then show ?thesis by (simp add: login_def session_ok_def)
qed

lemma register_session: "session_ok w \<Longrightarrow> session_ok (snd (register env d w))"
proof -
  assume a: "session_ok w"
  let ?v = "sendRequest ''/auth/register'' (setError None (setIsLoading True w))"
  have v: "session_ok ?v" using a by (simp add: session_ok_def)
  have "session_ok (snd (register_try env d w))"
    using v storeAuthData_session [OF v, of env]
    by (auto simp: register_try_def authService_register_def split: sum.splits)
  then show ?thesis by (simp add: register_def session_ok_def)
qed

lemma resetPassword_session: "session_ok w \<Longrightarrow> session_ok (snd (resetPassword env m w))"
proof -
  assume a: "session_ok w"
  have "session_ok (snd (resetPassword_try env m w))"
    using a by (auto simp: resetPassword_try_def authService_resetPassword_def session_ok_def
        split: sum.splits)
  then show ?thesis by (simp add: resetPassword_def session_ok_def)
qed

lemma logout_session: "purge_ok env \<Longrightarrow> session_ok (snd (logout env w))"
  by (simp add: logout_unfold session_ok_def clearAuthData_purge)

lemma refreshToken_session: "purge_ok env \<Longrightarrow> session_ok (snd (refreshToken env w))"
proof -
  assume p: "purge_ok env"
  obtain r w1 where t: "refreshToken_try env w = (r, w1)" by (cases "refreshToken_try env w")
  show ?thesis
  proof (cases r)
    case (Inl e)
    with t show ?thesis by (simp add: refreshToken_def session_ok_def clearAuthData_purge [OF p])
  next
    case (Inr u)
    with t refreshToken_try_succeeds(3,4) [of env w u w1] show ?thesis
      by (simp add: refreshToken_def session_ok_def)
  qed
qed

lemma checkAuthStatus_session:
  assumes p: "purge_ok env" and a: "session_ok w"
  shows "session_ok (checkAuthStatus env w)"
proof (cases "get_fails env TOKEN_KEY \<or> get_fails env USER_KEY")
  case True
  then show ?thesis
    by (simp add: checkAuthStatus_unreadable session_ok_def clearAuthData_purge [OF p])
next
  case False
  then have g: "\<not> get_fails env TOKEN_KEY" "\<not> get_fails env USER_KEY" by simp_all
  show ?thesis
  proof (cases "truthy (store w TOKEN_KEY) = None \<or> truthy (store w USER_KEY) = None")
    case True
    from checkAuthStatus_skip [OF g True] a show ?thesis by (simp add: session_ok_def)
  next
    case False
    then obtain t ud where t: "truthy (store w TOKEN_KEY) = Some t"
      and ud: "truthy (store w USER_KEY) = Some ud" by auto
    from t have tk: "store w TOKEN_KEY \<noteq> None" by (auto simp: truthy_def split: option.splits)
    show ?thesis
    proof (cases "JSON_parse env ud")
      case (Inl e)
      from checkAuthStatus_parse_fails [OF g t ud Inl] show ?thesis
        by (simp add: session_ok_def clearAuthData_purge [OF p])
    next
      case (Inr q)
      show ?thesis
      proof (cases "srv_me env (requestInterceptor env w)")
        case (Inl e)
        from checkAuthStatus_me_fails [OF g t ud Inr Inl] show ?thesis
          by (simp add: session_ok_def clearAuthData_purge [OF p])
      next
        case r: (Inr r)
        show ?thesis
        proof (cases "data r")
          case None
          from checkAuthStatus_me_empty [OF g t ud Inr r None] tk show ?thesis
            by (simp add: session_ok_def)
        next
          case (Some d)
          show ?thesis
          proof (cases "set_fails env USER_KEY")
            case True
            from checkAuthStatus_write_fails [OF g t ud Inr r Some True] show ?thesis
              by (simp add: session_ok_def clearAuthData_purge [OF p])
          next
            case False
            from checkAuthStatus_refreshed(2) [OF g t ud Inr r Some False] tk show ?thesis
              by (simp add: session_ok_def)
          qed
        qed
      qed
    qed
  qed
qed

lemma perform_session:
  "purge_ok env \<Longrightarrow> session_ok w \<Longrightarrow> session_ok (perform env op w)"
  by (cases op)
    (simp_all add: login_session register_session resetPassword_session logout_session
      refreshToken_session checkAuthStatus_session, simp add: clearError_def session_ok_def)

lemma run_session:
  "\<forall>(env, op) \<in> set steps. purge_ok env \<Longrightarrow> session_ok w \<Longrightarrow> session_ok (run steps w)"
  by (induction steps arbitrary: w) (auto simp: perform_session)

text \<open>
  C7 (visible session), as amended. Start from the initial session over any store and
  perform any operations (login, register, logout, resetPassword, refreshToken,
  clearError, the startup pass), each under any behaviour of the backend and the store
  in which no deletion of a purge is rejected, whether the operations resolve or throw.
  Then \<open>isAuthenticated\<close> holds exactly when \<open>user\<close> is not null and an access token is
  in the store.
\<close>

theorem visible_session:
  assumes "\<forall>(env, op) \<in> set steps. purge_ok env"
  shows "isAuthenticated (run steps (initial s)) =
         (user (run steps (initial s)) \<noteq> None \<and> store (run steps (initial s)) TOKEN_KEY \<noteq> None)"
proof -
  have "session_ok (initial s)" by (simp add: session_ok_def)
  from run_session [OF assms this] show ?thesis
    by (auto simp: session_ok_def isAuthenticated_def)
qed

lemma signed_in_world:
  "user (run [(env_ok, CheckAuthStatus), (env_ok, Login creds1)] (initial store_empty)) = Some user1"
  "store (run [(env_ok, CheckAuthStatus), (env_ok, Login creds1)] (initial store_empty)) TOKEN_KEY = Some ''t1''"
  by (simp_all add: checkAuthStatus_def getItemAsync_def store_empty_def env_ok_sel truthy_def
      login_def login_try_def authService_login_def rethrow_formatted_def responseInterceptor_def
      resp_ok_def storeAuthData_def setItemAsync_def catch_finally_def)

text \<open>Startup on an empty store, a login, then a logout with the backend out of reach.\<close>

theorem visible_session_witness:
  "purge_ok env_ok \<and> purge_ok env_down \<and>
   user (run [(env_ok, CheckAuthStatus), (env_ok, Login creds1)] (initial store_empty)) = Some user1 \<and>
   isAuthenticated (run [(env_ok, CheckAuthStatus), (env_ok, Login creds1)] (initial store_empty)) \<and>
   store (run [(env_ok, CheckAuthStatus), (env_ok, Login creds1)] (initial store_empty)) TOKEN_KEY \<noteq> None \<and>
   \<not> isAuthenticated
       (run [(env_ok, CheckAuthStatus), (env_ok, Login creds1), (env_down, Logout)] (initial store_empty))"
proof -
  have p: "purge_ok env_ok" "purge_ok env_down"
    by (simp_all add: purge_ok_def env_ok_sel env_down_sel)
  have 1: "\<forall>(env, op) \<in> set [(env_ok, CheckAuthStatus), (env_ok, Login creds1)]. purge_ok env"
    using p by simp
  have 2: "\<forall>(env, op) \<in> set [(env_ok, CheckAuthStatus), (env_ok, Login creds1), (env_down, Logout)].
      purge_ok env"
    using p by simp
  have 3: "user (run [(env_ok, CheckAuthStatus), (env_ok, Login creds1), (env_down, Logout)]
      (initial store_empty)) = None"
    by (simp add: logout_unfold clearAuthData_purge [OF p(2)])
  from visible_session [OF 1, of store_empty] visible_session [OF 2, of store_empty]
    p signed_in_world(1) 3
  show ?thesis by (simp add: isAuthenticated_def)
qed

text \<open>
  C7 as stated fails when the store rejects a deletion: in a logout whose deletion of the
  refresh token is rejected, the access token is already gone and \<^verbatim>\<open>setUser(null)\<close> is
  skipped, so the session still shows as authenticated with no access token stored.
\<close>

theorem signed_in_without_token:
  "isAuthenticated
     (run [(env_ok, CheckAuthStatus), (env_ok, Login creds1), (env_half_locked, Logout)]
        (initial store_empty)) \<and>
   store (run [(env_ok, CheckAuthStatus), (env_ok, Login creds1), (env_half_locked, Logout)]
        (initial store_empty)) TOKEN_KEY = None"
proof -
  have "run [(env_ok, CheckAuthStatus), (env_ok, Login creds1), (env_half_locked, Logout)]
        (initial store_empty) =
      snd (logout env_half_locked
        (run [(env_ok, CheckAuthStatus), (env_ok, Login creds1)] (initial store_empty)))"
    by simp
  then show ?thesis
    using signed_in_world
    by (simp add: isAuthenticated_def logout_unfold clearAuthData_def deleteItemAsync_def
        env_half_locked_def env_ok_sel del: run.simps)
qed

end
